theory Spec2Isabelle
  imports Complex_Main "HOL-Library.Sublist" "HOL-Library.Word"
begin

unbundle bit_operations_syntax

section \<open>The OKX perpetual-futures trading client\<close>

text \<open>
  A shallow embedding of \<^verbatim>\<open>OKXTrader\<close> (package \<^verbatim>\<open>trader\<close>): the symbol codec, the
  transport with its retry loop, the instrument-spec and precision code, the two
  TTL caches, the order cancellation and the request signer. Go strings are byte
  sequences and are modelled as \<^typ>\<open>string\<close>. The model is sequential: the
  mutexes that guard the caches are not part of it.
\<close>

subsection \<open>The functions of package \<^verbatim>\<open>strings\<close> that the client calls\<close>

fun Contains :: "string \<Rightarrow> string \<Rightarrow> bool" where
  "Contains [] sub = (sub = [])"
| "Contains (c # cs) sub = (prefix sub (c # cs) \<or> Contains cs sub)"

definition HasSuffix :: "string \<Rightarrow> string \<Rightarrow> bool" where
  "HasSuffix s suf = (length suf \<le> length s \<and> drop (length s - length suf) s = suf)"

definition TrimSuffix :: "string \<Rightarrow> string \<Rightarrow> string" where
  "TrimSuffix s suf = (if HasSuffix s suf then take (length s - length suf) s else s)"

definition TrimRight :: "string \<Rightarrow> string \<Rightarrow> string" where
  "TrimRight s cutset = rev (dropWhile (\<lambda>c. c \<in> set cutset) (rev s))"

text \<open>
  \<^verbatim>\<open>strings.ReplaceAll(s, old, new)\<close> replaces the non-overlapping occurrences of
  \<open>old\<close> from left to right. With an empty \<open>old\<close> Go inserts \<open>new\<close> before every
  character and at the end (per byte here, which is Go's behaviour on ASCII text).
\<close>

function ReplaceAll :: "string \<Rightarrow> string \<Rightarrow> string \<Rightarrow> string" where
  "ReplaceAll s old new =
     (if old = [] then new @ concat (map (\<lambda>c. c # new) s)
      else if s = [] then []
      else if prefix old s then new @ ReplaceAll (drop (length old) s) old new
      else hd s # ReplaceAll (tl s) old new)"
  by pat_completeness auto
termination
  by (relation "measure (\<lambda>(s, old, new). length s)") auto

declare ReplaceAll.simps [simp del]

subsection \<open>Symbol codec\<close>

text \<open>
  \<^verbatim>\<open>convertSymbol\<close>: \<^verbatim>\<open>BTCUSDT -> BTC-USDT-SWAP\<close>. A symbol that already contains
  \<^verbatim>\<open>-\<close> is returned as it is; \<^verbatim>\<open>USDT\<close> is tried before \<^verbatim>\<open>USD\<close>; with neither suffix
  \<^verbatim>\<open>-USDT-SWAP\<close> is appended.
\<close>

definition convertSymbol :: "string \<Rightarrow> string" where
  "convertSymbol symbol =
     (if Contains symbol ''-'' then symbol
      else let base = TrimSuffix symbol ''USDT'' in
        if base = symbol then
          (let base2 = TrimSuffix symbol ''USD'' in
             if base2 = symbol then symbol @ ''-USDT-SWAP''
             else base2 @ ''-USD-SWAP'')
        else base @ ''-USDT-SWAP'')"

text \<open>\<^verbatim>\<open>reverseSymbol\<close>: \<^verbatim>\<open>BTC-USDT-SWAP -> BTCUSDT\<close>.\<close>

definition reverseSymbol :: "string \<Rightarrow> string" where
  "reverseSymbol okxSymbol = ReplaceAll (TrimSuffix okxSymbol ''-SWAP'') ''-'' ''''"

subsection \<open>Numbers: \<^verbatim>\<open>float64\<close>, \<^verbatim>\<open>strconv\<close> and \<^verbatim>\<open>math\<close>\<close>

text \<open>
  A \<^verbatim>\<open>float64\<close> is a value of the IEEE 754 binary64 format: a finite number
  (\<open>Finite 0\<close> is the positive zero), the negative zero, an infinity or a NaN.
  The finite values of the format are the numbers \<open>n * 2 ^ e\<close> with \<open>n < 2 ^ 53\<close>
  and \<open>e\<close> from -1074 to 971; every operation below returns such a value when
  it returns a finite one. The payload of a NaN is not kept.
\<close>

datatype float64 = Finite real | NegZero | PosInf | NegInf | NaN

fun fval :: "float64 \<Rightarrow> real" where
  "fval (Finite r) = r"
| "fval NegZero = 0"
| "fval PosInf = 0"
| "fval NegInf = 0"
| "fval NaN = 0"

fun signbit :: "float64 \<Rightarrow> bool" where
  "signbit (Finite r) = (r < 0)"
| "signbit NegZero = True"
| "signbit PosInf = False"
| "signbit NegInf = True"
| "signbit NaN = False"

fun is_finite :: "float64 \<Rightarrow> bool" where
  "is_finite (Finite r) = True"
| "is_finite NegZero = True"
| "is_finite PosInf = False"
| "is_finite NegInf = False"
| "is_finite NaN = False"

definition is_inf :: "float64 \<Rightarrow> bool" where
  "is_inf x \<longleftrightarrow> x = PosInf \<or> x = NegInf"

definition is_zero :: "float64 \<Rightarrow> bool" where
  "is_zero x \<longleftrightarrow> x = Finite 0 \<or> x = NegZero"

definition zero_of :: "bool \<Rightarrow> float64" where
  "zero_of neg = (if neg then NegZero else Finite 0)"

definition inf_of :: "bool \<Rightarrow> float64" where
  "inf_of neg = (if neg then NegInf else PosInf)"

text \<open>
  Rounding to the nearest value of the format, to the even one on a tie. The
  exponent of a positive number is found by halving or doubling it into
  \<open>[1, 2)\<close>; it stops at -1022, below which the values are subnormal and equally
  spaced, and at 1024, from which on every number overflows. A result of
  \<open>2 ^ 1024\<close> or more is an infinity.
\<close>

definition pow2 :: "int \<Rightarrow> real" where
  "pow2 e = (if 0 \<le> e then 2 ^ nat e else 1 / 2 ^ nat (- e))"

fun halvings :: "nat \<Rightarrow> real \<Rightarrow> nat" where
  "halvings 0 x = 0"
| "halvings (Suc n) x = (if x < 2 then 0 else Suc (halvings n (x / 2)))"

fun doublings :: "nat \<Rightarrow> real \<Rightarrow> nat" where
  "doublings 0 x = 0"
| "doublings (Suc n) x = (if 1 \<le> x then 0 else Suc (doublings n (2 * x)))"

definition exponent :: "real \<Rightarrow> int" where
  "exponent x = (if 1 \<le> x then int (halvings 1024 x) else - int (doublings 1022 x))"

definition round_half_even :: "real \<Rightarrow> nat" where
  "round_half_even x =
     (let f = \<lfloor>x\<rfloor>; d = x - of_int f
      in nat (if d < 1 / 2 then f else if 1 / 2 < d then f + 1 else if even f then f else f + 1))"

definition nearest :: "real \<Rightarrow> real" where
  "nearest x = (let u = pow2 (exponent x - 52) in of_nat (round_half_even (x / u)) * u)"

definition round64 :: "real \<Rightarrow> float64" where
  "round64 x =
     (let m = nearest \<bar>x\<bar> in
      if 2 ^ 1024 \<le> m then inf_of (x < 0)
      else if m = 0 then zero_of (x < 0)
      else Finite (if x < 0 then - m else m))"

text \<open>
  The comparisons: a NaN compares false with everything, and the two zeros are
  equal.
\<close>

fun flt :: "float64 \<Rightarrow> float64 \<Rightarrow> bool" where
  "flt NaN y = False"
| "flt x NaN = False"
| "flt PosInf y = False"
| "flt x NegInf = False"
| "flt NegInf y = True"
| "flt x PosInf = True"
| "flt x y = (fval x < fval y)"

definition feq :: "float64 \<Rightarrow> float64 \<Rightarrow> bool" where
  "feq x y \<longleftrightarrow> x \<noteq> NaN \<and> y \<noteq> NaN \<and> (x = y \<or> (is_finite x \<and> is_finite y \<and> fval x = fval y))"

definition fle :: "float64 \<Rightarrow> float64 \<Rightarrow> bool" where
  "fle x y \<longleftrightarrow> flt x y \<or> feq x y"

definition fgt :: "float64 \<Rightarrow> float64 \<Rightarrow> bool" where
  "fgt x y \<longleftrightarrow> flt y x"

text \<open>The arithmetic: the exact result, rounded; the special cases are those of IEEE 754.\<close>

fun fneg :: "float64 \<Rightarrow> float64" where
  "fneg (Finite r) = (if r = 0 then NegZero else Finite (- r))"
| "fneg NegZero = Finite 0"
| "fneg PosInf = NegInf"
| "fneg NegInf = PosInf"
| "fneg NaN = NaN"

definition fmul :: "float64 \<Rightarrow> float64 \<Rightarrow> float64" where
  "fmul x y =
     (if x = NaN \<or> y = NaN then NaN
      else if is_inf x \<or> is_inf y
        then (if is_zero x \<or> is_zero y then NaN else inf_of (signbit x \<noteq> signbit y))
      else if is_zero x \<or> is_zero y then zero_of (signbit x \<noteq> signbit y)
      else round64 (fval x * fval y))"

definition fdiv :: "float64 \<Rightarrow> float64 \<Rightarrow> float64" where
  "fdiv x y =
     (if x = NaN \<or> y = NaN then NaN
      else if is_inf x then (if is_inf y then NaN else inf_of (signbit x \<noteq> signbit y))
      else if is_inf y then zero_of (signbit x \<noteq> signbit y)
      else if is_zero y then (if is_zero x then NaN else inf_of (signbit x \<noteq> signbit y))
      else if is_zero x then zero_of (signbit x \<noteq> signbit y)
      else round64 (fval x / fval y))"

definition fadd :: "float64 \<Rightarrow> float64 \<Rightarrow> float64" where
  "fadd x y =
     (if x = NaN \<or> y = NaN then NaN
      else if is_inf x then (if is_inf y \<and> x \<noteq> y then NaN else x)
      else if is_inf y then y
      else if fval x + fval y = 0 then zero_of (signbit x \<and> signbit y)
      else round64 (fval x + fval y))"

definition fsub :: "float64 \<Rightarrow> float64 \<Rightarrow> float64" where
  "fsub x y = fadd x (fneg y)"

text \<open>\<^verbatim>\<open>math.Floor\<close>, and \<^verbatim>\<open>math.Round\<close>, which rounds half away from zero.\<close>

fun Floor :: "float64 \<Rightarrow> float64" where
  "Floor (Finite r) = Finite (of_int \<lfloor>r\<rfloor>)"
| "Floor x = x"

fun Round :: "float64 \<Rightarrow> float64" where
  "Round (Finite r) =
     (if \<bar>r\<bar> < 1 / 2 then zero_of (r < 0)
      else if 0 \<le> r then Finite (of_int \<lfloor>r + 1 / 2\<rfloor>) else Finite (- of_int \<lfloor>- r + 1 / 2\<rfloor>))"
| "Round x = x"

text \<open>
  \<^verbatim>\<open>math.Pow10(n)\<close> for \<open>n \<ge> 0\<close>: the product of two table entries, which are the
  literals \<^verbatim>\<open>1e00\<close> to \<^verbatim>\<open>1e31\<close> and \<^verbatim>\<open>1e00\<close>, \<^verbatim>\<open>1e32\<close>, ... \<^verbatim>\<open>1e288\<close>, and an
  infinity above 308.
\<close>

definition Pow10 :: "nat \<Rightarrow> float64" where
  "Pow10 n =
     (if n \<le> 308 then fmul (round64 (10 ^ (32 * (n div 32)))) (round64 (10 ^ (n mod 32)))
      else PosInf)"

text \<open>
  \<^verbatim>\<open>strconv.FormatFloat(x, 'f', prec, 64)\<close> and \<^verbatim>\<open>fmt.Sprintf("%.10f", x)\<close>: the
  sign, then the magnitude rounded to \<open>prec\<close> decimals, to nearest and to even
  on a tie, as Go rounds the exact value of the \<^verbatim>\<open>float64\<close>.
\<close>

definition digit_char :: "nat \<Rightarrow> char" where
  "digit_char d = ''0123456789'' ! d"

function show_nat :: "nat \<Rightarrow> string" where
  "show_nat n = (if n < 10 then [digit_char n] else show_nat (n div 10) @ [digit_char (n mod 10)])"
  by pat_completeness auto
termination
  by (relation "measure id") auto

declare show_nat.simps [simp del]

primrec pad_digits :: "nat \<Rightarrow> nat \<Rightarrow> string" where
  "pad_digits 0 m = []"
| "pad_digits (Suc k) m = pad_digits k (m div 10) @ [digit_char (m mod 10)]"

definition format_digits :: "real \<Rightarrow> nat \<Rightarrow> string" where
  "format_digits x prec =
     (let n = round_half_even (x * 10 ^ prec);
          ip = show_nat (n div 10 ^ prec)
      in if prec = 0 then ip else ip @ ''.'' @ pad_digits prec (n mod 10 ^ prec))"

fun FormatFloat :: "float64 \<Rightarrow> nat \<Rightarrow> string" where
  "FormatFloat (Finite r) prec = (if r < 0 then ''-'' else []) @ format_digits \<bar>r\<bar> prec"
| "FormatFloat NegZero prec = ''-'' @ format_digits 0 prec"
| "FormatFloat PosInf prec = ''+Inf''"
| "FormatFloat NegInf prec = ''-Inf''"
| "FormatFloat NaN prec = ''NaN''"

text \<open>
  \<^verbatim>\<open>strconv.ParseFloat(s, 64)\<close> reads the names of the infinities and of NaN,
  decimal numbers and hexadecimal ones (\<^verbatim>\<open>0x1.8p3\<close>), both with underscores
  between digits, and returns the nearest \<^verbatim>\<open>float64\<close>. The functions below
  follow \<^verbatim>\<open>special\<close>, \<^verbatim>\<open>readFloat\<close> and \<^verbatim>\<open>underscoreOK\<close> of package \<^verbatim>\<open>strconv\<close>, on a
  string that must be read to its end.
\<close>

definition digit_of :: "char \<Rightarrow> nat option" where
  "digit_of c = (let n = (of_char c :: nat) in if 48 \<le> n \<and> n \<le> 57 then Some (n - 48) else None)"

definition hex_letter_of :: "char \<Rightarrow> nat option" where
  "hex_letter_of c =
     (let n = (of_char c :: nat) in
      if 97 \<le> n \<and> n \<le> 102 then Some (n - 87)
      else if 65 \<le> n \<and> n \<le> 70 then Some (n - 55) else None)"

definition mant_digit_of :: "bool \<Rightarrow> char \<Rightarrow> nat option" where
  "mant_digit_of hex c =
     (case digit_of c of Some d \<Rightarrow> Some d | None \<Rightarrow> if hex then hex_letter_of c else None)"

text \<open>Equality up to the case of the letters of \<open>s\<close>; \<open>pat\<close> is in lower case.\<close>

definition eq_fold :: "string \<Rightarrow> string \<Rightarrow> bool" where
  "eq_fold s pat \<longleftrightarrow>
     list_all2 (\<lambda>c d. c = d \<or> (65 \<le> (of_char c :: nat) \<and> (of_char c :: nat) \<le> 90
                                \<and> (of_char c :: nat) + 32 = of_char d)) s pat"

definition has_sign :: "string \<Rightarrow> bool" where
  "has_sign s \<longleftrightarrow> s \<noteq> [] \<and> (hd s = CHR ''+'' \<or> hd s = CHR ''-'')"

definition unsigned :: "string \<Rightarrow> string" where
  "unsigned s = (if has_sign s then tl s else s)"

definition special :: "string \<Rightarrow> float64 option" where
  "special s =
     (if eq_fold (unsigned s) ''inf'' \<or> eq_fold (unsigned s) ''infinity''
      then Some (inf_of (hd s = CHR ''-''))
      else if eq_fold s ''nan'' then Some NaN else None)"

text \<open>
  The end of the mantissa: the loop of \<^verbatim>\<open>readFloat\<close> goes over underscores, one
  point and digits, and stops at a second point or at any other character.
\<close>

fun mantissa_length :: "bool \<Rightarrow> bool \<Rightarrow> string \<Rightarrow> nat" where
  "mantissa_length hex sawdot [] = 0"
| "mantissa_length hex sawdot (c # cs) =
     (if c = CHR ''_'' then Suc (mantissa_length hex sawdot cs)
      else if c = CHR ''.'' then (if sawdot then 0 else Suc (mantissa_length hex True cs))
      else if mant_digit_of hex c \<noteq> None then Suc (mantissa_length hex sawdot cs)
      else 0)"

definition digits_of :: "bool \<Rightarrow> string \<Rightarrow> nat list" where
  "digits_of hex s = map (\<lambda>c. the (mant_digit_of hex c)) (filter (\<lambda>c. mant_digit_of hex c \<noteq> None) s)"

definition number_of :: "nat \<Rightarrow> nat list \<Rightarrow> nat" where
  "number_of base ds = foldl (\<lambda>acc d. base * acc + d) 0 ds"

text \<open>
  The exponent: \<^verbatim>\<open>e\<close> or \<^verbatim>\<open>p\<close>, a sign, a digit, then digits and underscores to
  the end of the string. \<^verbatim>\<open>readFloat\<close> stops adding digits once the exponent has
  reached 10000.
\<close>

definition exponent_of :: "string \<Rightarrow> int option" where
  "exponent_of s =
     (let u = unsigned s in
      if u = [] \<or> digit_of (hd u) = None then None
      else if \<exists>c\<in>set u. digit_of c = None \<and> c \<noteq> CHR ''_'' then None
      else Some ((if s \<noteq> [] \<and> hd s = CHR ''-'' then - 1 else 1) *
                 int (foldl (\<lambda>e d. if e < 10000 then 10 * e + d else e) 0 (digits_of False u))))"

datatype saw = SawStart | SawDigit | SawUnderscore | SawOther

fun underscore_scan :: "bool \<Rightarrow> saw \<Rightarrow> string \<Rightarrow> bool" where
  "underscore_scan hex sw [] = (sw \<noteq> SawUnderscore)"
| "underscore_scan hex sw (c # cs) =
     (if mant_digit_of hex c \<noteq> None then underscore_scan hex SawDigit cs
      else if c = CHR ''_'' then sw = SawDigit \<and> underscore_scan hex SawUnderscore cs
      else sw \<noteq> SawUnderscore \<and> underscore_scan hex SawOther cs)"

definition underscoreOK :: "string \<Rightarrow> bool" where
  "underscoreOK s =
     (let u = unsigned s;
          prefixed = (2 \<le> length u \<and> hd u = CHR ''0'' \<and> u ! 1 \<in> set ''bBoOxX'');
          hex = (prefixed \<and> u ! 1 \<in> set ''xX'')
      in underscore_scan hex (if prefixed then SawDigit else SawStart)
           (if prefixed then drop 2 u else u))"

text \<open>
  \<^verbatim>\<open>readFloat\<close>: the sign and the exact value that the string spells, or \<open>None\<close>
  for a syntax error.
\<close>

definition readFloat :: "string \<Rightarrow> (bool \<times> real) option" where
  "readFloat s =
     (let u = unsigned s;
          hex = (3 \<le> length u \<and> hd u = CHR ''0'' \<and> u ! 1 \<in> set ''xX'');
          body = (if hex then drop 2 u else u);
          n = mantissa_length hex False body;
          mant = take n body;
          rest = drop n body;
          ds = digits_of hex mant;
          frac = digits_of hex (drop 1 (dropWhile (\<lambda>c. c \<noteq> CHR ''.'') mant));
          m = (of_nat (number_of (if hex then 16 else 10) ds) :: real)
                / (if hex then 16 else 10) ^ length frac;
          e = (if rest = [] then (if hex then None else Some 0)
               else if hd rest \<in> set (if hex then ''pP'' else ''eE'') then exponent_of (tl rest)
               else None)
      in if ds = [] then None
         else case e of
           None \<Rightarrow> None
         | Some k \<Rightarrow>
             if CHR ''_'' \<in> set s \<and> \<not> underscoreOK s then None
             else Some (s \<noteq> [] \<and> hd s = CHR ''-'',
                        m * (if hex then pow2 k else if 0 \<le> k then 10 ^ nat k else 1 / 10 ^ nat (- k))))"

text \<open>
  \<^verbatim>\<open>ParseFloat\<close> returns the value and an error; the second component tells that
  the error is \<^verbatim>\<open>nil\<close>. On a syntax error the value is 0, on a number out of
  range it is an infinity.
\<close>

definition ParseFloat :: "string \<Rightarrow> float64 \<times> bool" where
  "ParseFloat s =
     (case special s of
        Some f \<Rightarrow> (f, True)
      | None \<Rightarrow>
          (case readFloat s of
             None \<Rightarrow> (Finite 0, False)
           | Some (neg, v) \<Rightarrow>
               (let f = (if v = 0 then zero_of neg else round64 (if neg then - v else v))
                in (f, is_finite f))))"

text \<open>\<^verbatim>\<open>x, _ := strconv.ParseFloat(s, 64)\<close>: the error is dropped.\<close>

definition parse_or_zero :: "string \<Rightarrow> float64" where
  "parse_or_zero s = fst (ParseFloat s)"

subsection \<open>Wire data\<close>

text \<open>
  The structs that \<^verbatim>\<open>json.Unmarshal\<close> fills, with the fields the client reads.
  Numeric fields arrive as decimal strings.
\<close>

record InstrumentInfo =
  InstID :: string
  LotSz :: string
  TickSz :: string
  MinSz :: string

record balance_detail =
  Bal :: string
  AvailBal :: string
  Eq :: string
  AvailEq :: string
  detail_Upl :: string

record balance_account =
  Details :: "balance_detail list"
  TotalEq :: string

record position_record =
  pos_InstID :: string
  Pos :: string
  AvgPx :: string
  MarkPx :: string
  LiqPx :: string
  Upl :: string
  Margin :: string
  Lever :: string
  MgnMode :: string
  NotionalUsd :: string

record algo_order =
  AlgoId :: string
  SlTriggerPx :: string
  TpTriggerPx :: string

text \<open>
  The \<^verbatim>\<open>data\<close> field of an envelope is a \<^verbatim>\<open>json.RawMessage\<close> that each caller
  decodes at its own slice type. A payload is represented by what
  \<^verbatim>\<open>json.Unmarshal\<close> yields for it at each of these types; \<open>None\<close> is a decoding
  error. \<open>as_orders\<close> lists the \<^verbatim>\<open>ordId\<close> fields.
\<close>

record payload =
  as_instruments :: "InstrumentInfo list option"
  as_balances :: "balance_account list option"
  as_positions :: "position_record list option"
  as_orders :: "string list option"
  as_algo_orders :: "algo_order list option"

record envelope =
  Code :: string
  Msg :: string
  Data :: payload

text \<open>
  What one call of \<^verbatim>\<open>t.client.Do(req)\<close> followed by \<^verbatim>\<open>io.ReadAll(resp.Body)\<close> can
  give: a transport error with its text, a failure while reading the body, or a
  status code with the body text and the envelope that \<^verbatim>\<open>json.Unmarshal\<close> finds
  in it (\<open>None\<close> when it returns an error).
\<close>

datatype outcome =
    TransportError string
  | ReadError string
  | Response nat string "envelope option"

text \<open>A value of a \<^verbatim>\<open>map[string]interface{}\<close>: a string, a boolean or a \<^verbatim>\<open>float64\<close>.\<close>

datatype jval = Str string | Bool bool | Num float64

record request =
  req_method :: string
  req_endpoint :: string
  req_body :: "(string \<times> jval) list option"

text \<open>The errors the client builds with \<^verbatim>\<open>fmt.Errorf\<close>, one constructor per message.\<close>

datatype error =
    ErrNewRequest
  | ErrHTTPRequest string
  | ErrReadResponse string
  | ErrAPI string string
  | ErrHTTPStatus nat string
  | ErrParseResponse
  | ErrRetried nat "error option"
  | ErrParseInstruments
  | ErrNoInstrument string
  | ErrQuantityNotPositive
  | ErrGetBalance error
  | ErrParseBalance
  | ErrNoBalance
  | ErrGetPositions error
  | ErrParsePositions
  | ErrListAlgoOrders error
  | ErrParseOrderList
  | ErrListOrders error

text \<open>
  The messages are Chinese in the source; in English, with the source line:
  \<^item> \<open>ErrNewRequest\<close>: "creating the request failed" (line 188);
  \<^item> \<open>ErrHTTPRequest e\<close>: "HTTP request failed: e" (line 204);
  \<^item> \<open>ErrReadResponse e\<close>: "reading the response failed: e" (line 218);
  \<^item> \<open>ErrAPI code msg\<close>: "OKX API error [code]: msg" (lines 227 and 244);
  \<^item> \<open>ErrHTTPStatus status body\<close>: "HTTP error status: body" (line 229);
  \<^item> \<open>ErrParseResponse\<close>: "parsing the response failed" (line 240);
  \<^item> \<open>ErrRetried n e\<close>: "request failed (retried n times): e" (line 250);
  \<^item> \<open>ErrParseInstruments\<close> (line 279), \<open>ErrNoInstrument\<close> (line 283),
    \<open>ErrQuantityNotPositive\<close> (line 342), \<open>ErrGetBalance\<close> (line 428),
    \<open>ErrParseBalance\<close> (line 449), \<open>ErrNoBalance\<close> (line 453), \<open>ErrGetPositions\<close>
    (line 509), \<open>ErrParsePositions\<close> (line 535), \<open>ErrListAlgoOrders\<close> (lines 1097
    and 1140), \<open>ErrParseOrderList\<close> (lines 1108, 1151 and 1199), \<open>ErrListOrders\<close>
    (line 1191).
\<close>

subsection \<open>The world outside the client\<close>

text \<open>
  Durations and clock readings are in nanoseconds, as \<^verbatim>\<open>time.Duration\<close> is.
  The exchange and the network are an oracle \<open>net\<close>: the outcome and the
  duration of the \<open>k\<close>-th round trip for the request sent. \<open>can_build\<close> stands
  for the validation done by \<^verbatim>\<open>http.NewRequest\<close>. \<open>sent\<close>, \<open>slept\<close> and \<open>logged\<close>
  record the round trips, the \<^verbatim>\<open>time.Sleep\<close> calls and the warnings printed by
  \<^verbatim>\<open>FormatQuantity\<close> and by the cancellation functions (lines 349, 365, 1123,
  1166, 1211, 1219 and 1223). The other lines that \<^verbatim>\<open>log.Printf\<close> prints, which
  report progress, a cache hit or a success, are not recorded.
\<close>

definition Second :: nat where
  "Second = 1000000000"

datatype logline =
    LogCancelOrderFailed string error
  | LogCancelStopLossFailed string error
  | LogCancelTakeProfitFailed string error
  | LogStopLossOrdersFailed error
  | LogTakeProfitOrdersFailed error
  | LogSpecFallback error
  | LogBelowMinimum

record world =
  now :: nat
  net :: "nat \<Rightarrow> request \<Rightarrow> outcome \<times> nat"
  can_build :: "request \<Rightarrow> bool"
  sent :: "request list"
  slept :: "nat list"
  logged :: "logline list"

definition Do :: "request \<Rightarrow> world \<Rightarrow> outcome \<times> world" where
  "Do req w =
     (case net w (length (sent w)) req of
        (out, d) \<Rightarrow> (out, w\<lparr>now := now w + d, sent := sent w @ [req]\<rparr>))"

definition Sleep :: "nat \<Rightarrow> world \<Rightarrow> world" where
  "Sleep d w = w\<lparr>now := now w + d, slept := slept w @ [d]\<rparr>"

definition Printf :: "logline \<Rightarrow> world \<Rightarrow> world" where
  "Printf l w = w\<lparr>logged := logged w @ [l]\<rparr>"

subsection \<open>Transport\<close>

definition retryable :: "string \<Rightarrow> bool" where
  "retryable e \<longleftrightarrow> Contains e ''timeout'' \<or> Contains e ''connection reset'' \<or> Contains e ''EOF''"

text \<open>
  The loop \<^verbatim>\<open>for attempt := 1; attempt <= maxRetries; attempt++\<close> of \<^verbatim>\<open>makeRequest\<close>,
  with the loop variable \<open>lastErr\<close>. The statement after the loop is the last
  branch.
\<close>

function makeRequest_loop ::
  "nat \<Rightarrow> nat \<Rightarrow> error option \<Rightarrow> request \<Rightarrow> world \<Rightarrow> (error + payload) \<times> world" where
  "makeRequest_loop maxRetries attempt lastErr req w =
     (if attempt \<le> maxRetries then
        (case Do req w of
           (TransportError e, w1) \<Rightarrow>
             if attempt < maxRetries \<and> retryable e
             then makeRequest_loop maxRetries (attempt + 1) (Some (ErrHTTPRequest e)) req
                    (Sleep (attempt * Second) w1)
             else (Inl (ErrHTTPRequest e), w1)
         | (ReadError e, w1) \<Rightarrow> (Inl (ErrReadResponse e), w1)
         | (Response status body env, w1) \<Rightarrow>
             if status \<noteq> 200 then
               (case env of
                  Some errResp \<Rightarrow> (Inl (ErrAPI (Code errResp) (Msg errResp)), w1)
                | None \<Rightarrow> (Inl (ErrHTTPStatus status body), w1))
             else
               (case env of
                  None \<Rightarrow> (Inl ErrParseResponse, w1)
                | Some okxResp \<Rightarrow>
                    if Code okxResp \<noteq> ''0''
                    then (Inl (ErrAPI (Code okxResp) (Msg okxResp)), w1)
                    else (Inr (Data okxResp), w1)))
      else (Inl (ErrRetried maxRetries lastErr), w))"
  by pat_completeness auto
termination
  by (relation "measure (\<lambda>(m, a, l, r, w). Suc m - a)") auto

declare makeRequest_loop.simps [simp del]

text \<open>
  \<^verbatim>\<open>makeRequest\<close>. The body of every call site is \<^verbatim>\<open>nil\<close> or a map of strings and
  booleans, which \<^verbatim>\<open>json.Marshal\<close> cannot reject. The five headers
  (\<^verbatim>\<open>Content-Type\<close> and the four \<^verbatim>\<open>OK-ACCESS-*\<close>) are set from the credentials, the
  timestamp and the signature; the control flow does not read them, and the
  logged request keeps the method, the endpoint and the body.
\<close>

definition makeRequest ::
  "string \<Rightarrow> string \<Rightarrow> (string \<times> jval) list option \<Rightarrow> world \<Rightarrow> (error + payload) \<times> world" where
  "makeRequest method endpoint body w =
     (let req = \<lparr>req_method = method, req_endpoint = endpoint, req_body = body\<rparr> in
      if \<not> can_build w req then (Inl ErrNewRequest, w)
      else makeRequest_loop 3 1 None req w)"

subsection \<open>The client\<close>

record OKXSymbolPrecision =
  PricePrecision :: nat
  QuantityPrecision :: nat
  TickSize :: float64
  StepSize :: float64
  MinSize :: float64

text \<open>
  The fields of \<^verbatim>\<open>OKXTrader\<close> that the modelled functions read or write. A \<^verbatim>\<open>nil\<close>
  map and a \<^verbatim>\<open>nil\<close> slice are \<open>None\<close>: \<^verbatim>\<open>cachedPositions\<close> is a slice, and Go
  tells a \<^verbatim>\<open>nil\<close> slice from an empty one that is not \<^verbatim>\<open>nil\<close>. The cache times are
  clock readings.
\<close>

record OKXTrader =
  secretKey :: string
  cachedBalance :: "(string \<rightharpoonup> float64) option"
  balanceCacheTime :: nat
  cachedPositions :: "(string \<rightharpoonup> jval) list option"
  positionsCacheTime :: nat
  symbolPrecision :: "string \<rightharpoonup> OKXSymbolPrecision"
  cacheDuration :: nat

text \<open>\<^verbatim>\<open>append(s, x)\<close> on a slice that may be \<^verbatim>\<open>nil\<close>; the result never is.\<close>

fun append_slice :: "'a list option \<Rightarrow> 'a \<Rightarrow> 'a list option" where
  "append_slice None x = Some [x]"
| "append_slice (Some xs) x = Some (xs @ [x])"

text \<open>The elements of a slice; a \<^verbatim>\<open>nil\<close> slice has none.\<close>

fun elems :: "'a list option \<Rightarrow> 'a list" where
  "elems None = []"
| "elems (Some xs) = xs"

subsubsection \<open>Instrument specification and precision\<close>

definition getInstrumentInfo :: "string \<Rightarrow> world \<Rightarrow> (error + InstrumentInfo) \<times> world" where
  "getInstrumentInfo symbol w =
     (let okxSymbol = convertSymbol symbol in
      case makeRequest ''GET'' (''/api/v5/public/instruments?instType=SWAP&instId='' @ okxSymbol)
             None w of
        (Inl err, w1) \<Rightarrow> (Inl err, w1)
      | (Inr data, w1) \<Rightarrow>
          (case as_instruments data of
             None \<Rightarrow> (Inl ErrParseInstruments, w1)
           | Some [] \<Rightarrow> (Inl (ErrNoInstrument okxSymbol), w1)
           | Some (info # rest) \<Rightarrow> (Inr info, w1)))"

text \<open>
  The number of decimals as \<^verbatim>\<open>getPrecision\<close> computes it: the length of the
  \<^verbatim>\<open>%.10f\<close> rendering after trimming the zeros and the point on the right.
\<close>

definition precision_of :: "float64 \<Rightarrow> nat" where
  "precision_of x =
     (if fgt x (Finite 0)
      then length (TrimRight (TrimRight (FormatFloat x 10) ''0'') ''.'') else 0)"

definition getPrecision ::
  "string \<Rightarrow> OKXTrader \<Rightarrow> world \<Rightarrow> (error + OKXSymbolPrecision) \<times> OKXTrader \<times> world" where
  "getPrecision symbol t w =
     (let okxSymbol = convertSymbol symbol in
      case symbolPrecision t okxSymbol of
        Some prec \<Rightarrow> (Inr prec, t, w)
      | None \<Rightarrow>
          (case getInstrumentInfo symbol w of
             (Inl err, w1) \<Rightarrow> (Inl err, t, w1)
           | (Inr info, w1) \<Rightarrow>
               (let lotSz = parse_or_zero (LotSz info);
                    tickSz = parse_or_zero (TickSz info);
                    minSz = parse_or_zero (MinSz info);
                    prec = \<lparr>PricePrecision = precision_of tickSz,
                            QuantityPrecision = precision_of lotSz,
                            TickSize = tickSz, StepSize = lotSz, MinSize = minSz\<rparr>
                in (Inr prec, t\<lparr>symbolPrecision := (symbolPrecision t)(okxSymbol \<mapsto> prec)\<rparr>, w1))))"

text \<open>
  The arithmetic of \<^verbatim>\<open>FormatQuantity\<close> once the specification is there (lines 357
  to 381): the minimum, the multiple of the lot size, the minimum again, and
  the rendering of the floor with no decimals.
\<close>

definition quantize :: "InstrumentInfo \<Rightarrow> float64 \<Rightarrow> float64" where
  "quantize info quantity =
     (let minSz0 = parse_or_zero (MinSz info);
          minSz = (if fle minSz0 (Finite 0) then Finite 1 else minSz0);
          q1 = (if flt quantity minSz then minSz else quantity);
          lotSz = parse_or_zero (LotSz info)
      in if fgt lotSz (Finite 0)
         then (let q2 = fmul (Floor (fdiv q1 lotSz)) lotSz in if flt q2 minSz then minSz else q2)
         else q1)"

definition below_minimum :: "InstrumentInfo \<Rightarrow> float64 \<Rightarrow> bool" where
  "below_minimum info quantity =
     (let minSz0 = parse_or_zero (MinSz info)
      in flt quantity (if fle minSz0 (Finite 0) then Finite 1 else minSz0))"

definition FormatQuantity ::
  "string \<Rightarrow> float64 \<Rightarrow> world \<Rightarrow> (error + string) \<times> world" where
  "FormatQuantity symbol quantity w =
     (if fle quantity (Finite 0) then (Inl ErrQuantityNotPositive, w)
      else case getInstrumentInfo symbol w of
        (Inl err, w1) \<Rightarrow>
          (let w2 = Printf (LogSpecFallback err) w1 in
           if Contains symbol ''BTC'' \<or> Contains symbol ''ETH''
           then (Inr (FormatFloat (fdiv (Round (fmul quantity (Finite 100))) (Finite 100)) 2), w2)
           else (Inr (FormatFloat (fdiv (Round (fmul quantity (Finite 1000))) (Finite 1000)) 3), w2))
      | (Inr info, w1) \<Rightarrow>
          (Inr (FormatFloat (Floor (quantize info quantity)) 0),
           if below_minimum info quantity then Printf LogBelowMinimum w1 else w1))"

definition formatPrice ::
  "string \<Rightarrow> float64 \<Rightarrow> OKXTrader \<Rightarrow> world \<Rightarrow> (error + string) \<times> OKXTrader \<times> world" where
  "formatPrice symbol price t w =
     (case getPrecision symbol t w of
        (Inl err, t1, w1) \<Rightarrow> (Inl err, t1, w1)
      | (Inr prec, t1, w1) \<Rightarrow>
          (let formatted =
                 (if fgt (TickSize prec) (Finite 0)
                  then fmul (Floor (fdiv price (TickSize prec))) (TickSize prec)
                  else (let multiplier = Pow10 (PricePrecision prec)
                        in fdiv (Floor (fmul price multiplier)) multiplier));
               result = FormatFloat formatted (PricePrecision prec);
               result1 = TrimRight result ''0'';
               result2 = TrimRight result1 ''.''
           in (Inr result2, t1, w1)))"

subsubsection \<open>Account state\<close>

definition balance_result :: "balance_account \<Rightarrow> balance_detail \<Rightarrow> string \<rightharpoonup> float64" where
  "balance_result account detail =
     (let totalEq = parse_or_zero (TotalEq account);
          availEq = parse_or_zero (AvailEq detail);
          eq = parse_or_zero (Eq detail);
          bal = parse_or_zero (Bal detail);
          availBal = parse_or_zero (AvailBal detail);
          upl = parse_or_zero (detail_Upl detail);
          totalWalletBalance = fsub totalEq upl
      in map_of
           [(''totalWalletBalance'', totalWalletBalance),
            (''availableBalance'', availEq),
            (''totalUnrealizedProfit'', upl),
            (''total_balance'', totalEq),
            (''available_balance'', availEq),
            (''balance'', bal),
            (''available_balance_ccy'', availBal),
            (''equity'', eq),
            (''total_equity'', totalEq)])"

definition GetBalance ::
  "OKXTrader \<Rightarrow> world \<Rightarrow> (error + (string \<rightharpoonup> float64)) \<times> OKXTrader \<times> world" where
  "GetBalance t w =
     (if cachedBalance t \<noteq> None \<and> now w - balanceCacheTime t < cacheDuration t
      then (Inr (the (cachedBalance t)), t, w)
      else case makeRequest ''GET'' ''/api/v5/account/balance?ccy=USDT'' None w of
        (Inl err, w1) \<Rightarrow> (Inl (ErrGetBalance err), t, w1)
      | (Inr data, w1) \<Rightarrow>
          (case as_balances data of
             None \<Rightarrow> (Inl ErrParseBalance, t, w1)
           | Some balances \<Rightarrow>
               if balances = [] \<or> Details (hd balances) = [] then (Inl ErrNoBalance, t, w1)
               else (let result = balance_result (hd balances) (hd (Details (hd balances)))
                     in (Inr result,
                         t\<lparr>cachedBalance := Some result, balanceCacheTime := now w1\<rparr>, w1))))"

text \<open>
  One iteration of the loop of \<^verbatim>\<open>GetPositions\<close> on a record that is kept (lines
  555 to 591): the sign of \<^verbatim>\<open>pos\<close> gives the side, and the amount is made positive.
\<close>

definition normalize_position :: "position_record \<Rightarrow> string \<rightharpoonup> jval" where
  "normalize_position pos =
     (let posAmt0 = parse_or_zero (Pos pos);
          side = (if flt posAmt0 (Finite 0) then ''short'' else ''long'');
          posAmt = (if flt posAmt0 (Finite 0) then fneg posAmt0 else posAmt0);
          avgPx = parse_or_zero (AvgPx pos);
          markPx = parse_or_zero (MarkPx pos);
          upl = parse_or_zero (Upl pos);
          lever = parse_or_zero (Lever pos);
          margin = parse_or_zero (Margin pos);
          notionalUsd = parse_or_zero (NotionalUsd pos);
          liqPx = parse_or_zero (LiqPx pos);
          symbol = reverseSymbol (pos_InstID pos)
      in map_of
           [(''symbol'', Str symbol),
            (''positionAmt'', Num posAmt),
            (''entryPrice'', Num avgPx),
            (''markPrice'', Num markPx),
            (''unRealizedProfit'', Num upl),
            (''unrealizedPnl'', Num upl),
            (''leverage'', Num lever),
            (''margin'', Num margin),
            (''notional'', Num notionalUsd),
            (''liquidationPrice'', Num liqPx),
            (''side'', Str side),
            (''positionSide'', Str side),
            (''marginMode'', Str (MgnMode pos)),
            (''marginType'', Str (MgnMode pos))])"

text \<open>
  The loop \<^verbatim>\<open>for i, pos := range positions\<close> with its variable \<open>result\<close>, which
  \<^verbatim>\<open>var result []map[string]interface{}\<close> starts as \<^verbatim>\<open>nil\<close>.
\<close>

fun GetPositions_loop ::
  "position_record list \<Rightarrow> (string \<rightharpoonup> jval) list option \<Rightarrow> (string \<rightharpoonup> jval) list option" where
  "GetPositions_loop [] result = result"
| "GetPositions_loop (pos # positions) result =
     (if feq (parse_or_zero (Pos pos)) (Finite 0) then GetPositions_loop positions result
      else GetPositions_loop positions (append_slice result (normalize_position pos)))"

definition GetPositions ::
  "OKXTrader \<Rightarrow> world \<Rightarrow> (error + (string \<rightharpoonup> jval) list option) \<times> OKXTrader \<times> world" where
  "GetPositions t w =
     (if cachedPositions t \<noteq> None \<and> now w - positionsCacheTime t < cacheDuration t
      then (Inr (cachedPositions t), t, w)
      else case makeRequest ''GET'' ''/api/v5/account/positions'' None w of
        (Inl err, w1) \<Rightarrow> (Inl (ErrGetPositions err), t, w1)
      | (Inr data, w1) \<Rightarrow>
          (case as_positions data of
             None \<Rightarrow> (Inl ErrParsePositions, t, w1)
           | Some positions \<Rightarrow>
               (let result = GetPositions_loop positions None
                in (Inr result,
                    t\<lparr>cachedPositions := result, positionsCacheTime := now w1\<rparr>, w1))))"

subsubsection \<open>Order cancellation\<close>

fun CancelStopLossOrders_loop :: "string \<Rightarrow> algo_order list \<Rightarrow> world \<Rightarrow> world" where
  "CancelStopLossOrders_loop okxSymbol [] w = w"
| "CancelStopLossOrders_loop okxSymbol (order # orders) w =
     (if SlTriggerPx order \<noteq> [] \<and> SlTriggerPx order \<noteq> ''0'' then
        (case makeRequest ''POST'' ''/api/v5/trade/cancel-algo''
                (Some [(''instId'', Str okxSymbol), (''algoId'', Str (AlgoId order)),
                       (''ordType'', Str ''conditional'')]) w of
           (Inl err, w1) \<Rightarrow>
             CancelStopLossOrders_loop okxSymbol orders
               (Printf (LogCancelStopLossFailed (AlgoId order) err) w1)
         | (Inr d, w1) \<Rightarrow> CancelStopLossOrders_loop okxSymbol orders w1)
      else CancelStopLossOrders_loop okxSymbol orders w)"

definition CancelStopLossOrders :: "string \<Rightarrow> world \<Rightarrow> error option \<times> world" where
  "CancelStopLossOrders symbol w =
     (let okxSymbol = convertSymbol symbol in
      case makeRequest ''GET''
             (''/api/v5/trade/orders-algo-pending?instId='' @ okxSymbol @ ''&ordType=conditional'')
             None w of
        (Inl err, w1) \<Rightarrow> (Some (ErrListAlgoOrders err), w1)
      | (Inr data, w1) \<Rightarrow>
          (case as_algo_orders data of
             None \<Rightarrow> (Some ErrParseOrderList, w1)
           | Some orders \<Rightarrow> (None, CancelStopLossOrders_loop okxSymbol orders w1)))"

fun CancelTakeProfitOrders_loop :: "string \<Rightarrow> algo_order list \<Rightarrow> world \<Rightarrow> world" where
  "CancelTakeProfitOrders_loop okxSymbol [] w = w"
| "CancelTakeProfitOrders_loop okxSymbol (order # orders) w =
     (if TpTriggerPx order \<noteq> [] \<and> TpTriggerPx order \<noteq> ''0'' then
        (case makeRequest ''POST'' ''/api/v5/trade/cancel-algo''
                (Some [(''instId'', Str okxSymbol), (''algoId'', Str (AlgoId order)),
                       (''ordType'', Str ''conditional'')]) w of
           (Inl err, w1) \<Rightarrow>
             CancelTakeProfitOrders_loop okxSymbol orders
               (Printf (LogCancelTakeProfitFailed (AlgoId order) err) w1)
         | (Inr d, w1) \<Rightarrow> CancelTakeProfitOrders_loop okxSymbol orders w1)
      else CancelTakeProfitOrders_loop okxSymbol orders w)"

definition CancelTakeProfitOrders :: "string \<Rightarrow> world \<Rightarrow> error option \<times> world" where
  "CancelTakeProfitOrders symbol w =
     (let okxSymbol = convertSymbol symbol in
      case makeRequest ''GET''
             (''/api/v5/trade/orders-algo-pending?instId='' @ okxSymbol @ ''&ordType=conditional'')
             None w of
        (Inl err, w1) \<Rightarrow> (Some (ErrListAlgoOrders err), w1)
      | (Inr data, w1) \<Rightarrow>
          (case as_algo_orders data of
             None \<Rightarrow> (Some ErrParseOrderList, w1)
           | Some orders \<Rightarrow> (None, CancelTakeProfitOrders_loop okxSymbol orders w1)))"

text \<open>The loop of \<^verbatim>\<open>CancelAllOrders\<close> over the pending orders (lines 1203 to 1214).\<close>

fun CancelAllOrders_loop :: "string \<Rightarrow> string list \<Rightarrow> world \<Rightarrow> world" where
  "CancelAllOrders_loop okxSymbol [] w = w"
| "CancelAllOrders_loop okxSymbol (ordId # orders) w =
     (case makeRequest ''POST'' ''/api/v5/trade/cancel-order''
             (Some [(''instId'', Str okxSymbol), (''ordId'', Str ordId)]) w of
        (Inl err, w1) \<Rightarrow>
          CancelAllOrders_loop okxSymbol orders (Printf (LogCancelOrderFailed ordId err) w1)
      | (Inr d, w1) \<Rightarrow> CancelAllOrders_loop okxSymbol orders w1)"

text \<open>The end of \<^verbatim>\<open>CancelAllOrders\<close> (lines 1217 to 1227): both algo cancellations, then success.\<close>

definition CancelAllOrders_algo :: "string \<Rightarrow> world \<Rightarrow> error option \<times> world" where
  "CancelAllOrders_algo symbol w =
     (case CancelStopLossOrders symbol w of
        (e1, w1) \<Rightarrow>
          (let w2 = (case e1 of Some err \<Rightarrow> Printf (LogStopLossOrdersFailed err) w1 | None \<Rightarrow> w1) in
           case CancelTakeProfitOrders symbol w2 of
             (e2, w3) \<Rightarrow>
               (None,
                case e2 of Some err \<Rightarrow> Printf (LogTakeProfitOrdersFailed err) w3 | None \<Rightarrow> w3)))"


subsection \<open>Signer: \<^verbatim>\<open>crypto/sha256\<close>, \<^verbatim>\<open>crypto/hmac\<close> and \<^verbatim>\<open>encoding/base64\<close>\<close>

text \<open>
  \<^verbatim>\<open>generateSignature\<close> calls three packages of the Go library. They are
  modelled from their specifications: SHA-256 from FIPS 180-4, HMAC from RFC
  2104 in the streaming form of Go's \<^verbatim>\<open>hash.Hash\<close> interface (\<^verbatim>\<open>New\<close>, \<^verbatim>\<open>Write\<close>,
  \<^verbatim>\<open>Sum\<close>), and the standard base64 encoding with padding from RFC 4648.
\<close>

type_synonym byte = "8 word"

definition bytes_of :: "string \<Rightarrow> byte list" where
  "bytes_of s = map of_char s"

definition be32 :: "byte list \<Rightarrow> 32 word" where
  "be32 bs = foldl (\<lambda>acc b. push_bit 8 acc OR ucast b) 0 bs"

definition bytes_of_word32 :: "32 word \<Rightarrow> byte list" where
  "bytes_of_word32 w = [ucast (drop_bit 24 w), ucast (drop_bit 16 w), ucast (drop_bit 8 w), ucast w]"

definition bytes_of_length :: "nat \<Rightarrow> byte list" where
  "bytes_of_length n = map (\<lambda>i. of_nat (n div 2 ^ (8 * (7 - i)))) [0..<8]"

text \<open>
  The 64 round constants, eight to a row: the first 32 bits of the fractional
  parts of the cube roots of the first 64 primes.
\<close>

definition K256 :: "32 word list" where
  "K256 =
     [0x428a2f98, 0x71374491, 0xb5c0fbcf, 0xe9b5dba5, 0x3956c25b, 0x59f111f1, 0x923f82a4, 0xab1c5ed5] @
     [0xd807aa98, 0x12835b01, 0x243185be, 0x550c7dc3, 0x72be5d74, 0x80deb1fe, 0x9bdc06a7, 0xc19bf174] @
     [0xe49b69c1, 0xefbe4786, 0x0fc19dc6, 0x240ca1cc, 0x2de92c6f, 0x4a7484aa, 0x5cb0a9dc, 0x76f988da] @
     [0x983e5152, 0xa831c66d, 0xb00327c8, 0xbf597fc7, 0xc6e00bf3, 0xd5a79147, 0x06ca6351, 0x14292967] @
     [0x27b70a85, 0x2e1b2138, 0x4d2c6dfc, 0x53380d13, 0x650a7354, 0x766a0abb, 0x81c2c92e, 0x92722c85] @
     [0xa2bfe8a1, 0xa81a664b, 0xc24b8b70, 0xc76c51a3, 0xd192e819, 0xd6990624, 0xf40e3585, 0x106aa070] @
     [0x19a4c116, 0x1e376c08, 0x2748774c, 0x34b0bcb5, 0x391c0cb3, 0x4ed8aa4a, 0x5b9cca4f, 0x682e6ff3] @
     [0x748f82ee, 0x78a5636f, 0x84c87814, 0x8cc70208, 0x90befffa, 0xa4506ceb, 0xbef9a3f7, 0xc67178f2]"

definition H256 :: "32 word list" where
  "H256 =
    [0x6a09e667, 0xbb67ae85, 0x3c6ef372, 0xa54ff53a, 0x510e527f, 0x9b05688c, 0x1f83d9ab, 0x5be0cd19]"

definition rotr :: "nat \<Rightarrow> 32 word \<Rightarrow> 32 word" where
  "rotr n x = drop_bit n x OR push_bit (32 - n) x"

definition Ch :: "32 word \<Rightarrow> 32 word \<Rightarrow> 32 word \<Rightarrow> 32 word" where
  "Ch x y z = (x AND y) XOR (NOT x AND z)"

definition Maj :: "32 word \<Rightarrow> 32 word \<Rightarrow> 32 word \<Rightarrow> 32 word" where
  "Maj x y z = (x AND y) XOR (x AND z) XOR (y AND z)"

definition Sigma0 :: "32 word \<Rightarrow> 32 word" where
  "Sigma0 x = rotr 2 x XOR rotr 13 x XOR rotr 22 x"

definition Sigma1 :: "32 word \<Rightarrow> 32 word" where
  "Sigma1 x = rotr 6 x XOR rotr 11 x XOR rotr 25 x"

definition sigma0 :: "32 word \<Rightarrow> 32 word" where
  "sigma0 x = rotr 7 x XOR rotr 18 x XOR drop_bit 3 x"

definition sigma1 :: "32 word \<Rightarrow> 32 word" where
  "sigma1 x = rotr 17 x XOR rotr 19 x XOR drop_bit 10 x"

text \<open>The padding: a bit 1, zeros, and the length in bits on 64 bits.\<close>

definition sha256_pad :: "byte list \<Rightarrow> byte list" where
  "sha256_pad msg =
     msg @ [0x80] @ replicate ((119 - length msg mod 64) mod 64) 0 @ bytes_of_length (8 * length msg)"

function chunks :: "nat \<Rightarrow> 'a list \<Rightarrow> 'a list list" where
  "chunks n xs = (if n = 0 \<or> xs = [] then [] else take n xs # chunks n (drop n xs))"
  by pat_completeness auto
termination
  by (relation "measure (\<lambda>(n, xs). length xs)") auto

declare chunks.simps [simp del]

text \<open>The message schedule: 16 words of the block, extended to 64.\<close>

fun schedule :: "nat \<Rightarrow> 32 word list \<Rightarrow> 32 word list" where
  "schedule 0 ws = ws"
| "schedule (Suc n) ws =
     (let t = length ws in
      schedule n (ws @ [sigma1 (ws ! (t - 2)) + ws ! (t - 7) + sigma0 (ws ! (t - 15)) + ws ! (t - 16)]))"

definition sha256_round :: "32 word list \<Rightarrow> 32 word \<times> 32 word \<Rightarrow> 32 word list" where
  "sha256_round s kw =
     (case s of
        [a, b, c, d, e, f, g, h] \<Rightarrow>
          (let t1 = h + Sigma1 e + Ch e f g + fst kw + snd kw;
               t2 = Sigma0 a + Maj a b c
           in [t1 + t2, a, b, c, d + t1, e, f, g])
      | _ \<Rightarrow> s)"

definition sha256_block :: "32 word list \<Rightarrow> byte list \<Rightarrow> 32 word list" where
  "sha256_block hs block =
     (let ws = schedule 48 (map be32 (chunks 4 block))
      in map2 (+) hs (foldl sha256_round hs (zip K256 ws)))"

definition sha256 :: "byte list \<Rightarrow> byte list" where
  "sha256 msg = concat (map bytes_of_word32 (foldl sha256_block H256 (chunks 64 (sha256_pad msg))))"

text \<open>
  \<^verbatim>\<open>hmac.New(sha256.New, key)\<close>: a key longer than the block of 64 bytes is hashed,
  the key is padded with zeros, and the inner hash starts with the key xor
  \<^verbatim>\<open>0x36\<close>. The state keeps what was written to the inner hash and the key xor
  \<^verbatim>\<open>0x5c\<close> for the outer one.
\<close>

record hmac_state =
  opad :: "byte list"
  inner :: "byte list"

definition hmac_key :: "byte list \<Rightarrow> byte list" where
  "hmac_key key =
     (let k = (if 64 < length key then sha256 key else key) in k @ replicate (64 - length k) 0)"

definition hmac_New :: "byte list \<Rightarrow> hmac_state" where
  "hmac_New key =
     \<lparr>opad = map (\<lambda>b. b XOR 0x5c) (hmac_key key), inner = map (\<lambda>b. b XOR 0x36) (hmac_key key)\<rparr>"

definition hmac_Write :: "hmac_state \<Rightarrow> byte list \<Rightarrow> hmac_state" where
  "hmac_Write mac p = mac\<lparr>inner := inner mac @ p\<rparr>"

definition hmac_Sum :: "hmac_state \<Rightarrow> byte list \<Rightarrow> byte list" where
  "hmac_Sum mac b = b @ sha256 (opad mac @ sha256 (inner mac))"

text \<open>\<^verbatim>\<open>base64.StdEncoding.EncodeToString\<close>.\<close>

definition base64_char :: "nat \<Rightarrow> char" where
  "base64_char i = ''ABCDEFGHIJKLMNOPQRSTUVWXYZabcdefghijklmnopqrstuvwxyz0123456789+/'' ! i"

fun EncodeToString :: "byte list \<Rightarrow> string" where
  "EncodeToString [] = []"
| "EncodeToString [a] =
     (let n = unat a * 65536
      in [base64_char (n div 262144), base64_char (n div 4096 mod 64), CHR ''='', CHR ''=''])"
| "EncodeToString [a, b] =
     (let n = unat a * 65536 + unat b * 256
      in [base64_char (n div 262144), base64_char (n div 4096 mod 64),
          base64_char (n div 64 mod 64), CHR ''=''])"
| "EncodeToString (a # b # c # rest) =
     (let n = unat a * 65536 + unat b * 256 + unat c
      in [base64_char (n div 262144), base64_char (n div 4096 mod 64),
          base64_char (n div 64 mod 64), base64_char (n mod 64)] @ EncodeToString rest)"

text \<open>
  \<^verbatim>\<open>generateSignature\<close>: the message is the concatenation, the MAC is keyed by
  \<^verbatim>\<open>t.secretKey\<close>, and \<^verbatim>\<open>mac.Sum(nil)\<close> is encoded.
\<close>

definition generateSignature ::
  "OKXTrader \<Rightarrow> string \<Rightarrow> string \<Rightarrow> string \<Rightarrow> string \<Rightarrow> string" where
  "generateSignature t timestamp meth requestPath body =
     (let message = timestamp @ meth @ requestPath @ body;
          mac = hmac_New (bytes_of (secretKey t));
          mac1 = hmac_Write mac (bytes_of message);
          signature = EncodeToString (hmac_Sum mac1 [])
      in signature)"

text \<open>
  The specification's words: HMAC-SHA256 of RFC 2104,
  \<open>H((K xor opad) || H((K xor ipad) || text))\<close>, then base64.
\<close>

definition HMAC_SHA256 :: "byte list \<Rightarrow> byte list \<Rightarrow> byte list" where
  "HMAC_SHA256 key text =
     sha256 (map (\<lambda>b. b XOR 0x5c) (hmac_key key) @
             sha256 (map (\<lambda>b. b XOR 0x36) (hmac_key key) @ text))"

definition spec_signature :: "string \<Rightarrow> string \<Rightarrow> string \<Rightarrow> string \<Rightarrow> string \<Rightarrow> string" where
  "spec_signature secret timestamp meth path body =
     EncodeToString (HMAC_SHA256 (bytes_of secret) (bytes_of (timestamp @ meth @ path @ body)))"

subsection \<open>Notions used in the statements\<close>

text \<open>
  A failing fetch of the balance: no cached balance within its time to live, and
  the request fails in \<^verbatim>\<open>makeRequest\<close> (a transport error, a status other than 200,
  an envelope code other than \<^verbatim>\<open>"0"\<close>, a body that does not decode), or its
  payload does not decode, or it has no account or no detail. For the positions
  the last case does not exist.
\<close>

definition balance_cache_valid :: "OKXTrader \<Rightarrow> world \<Rightarrow> bool" where
  "balance_cache_valid t w \<longleftrightarrow>
     cachedBalance t \<noteq> None \<and> now w - balanceCacheTime t < cacheDuration t"

definition positions_cache_valid :: "OKXTrader \<Rightarrow> world \<Rightarrow> bool" where
  "positions_cache_valid t w \<longleftrightarrow>
     cachedPositions t \<noteq> None \<and> now w - positionsCacheTime t < cacheDuration t"

definition balance_fetch_fails :: "world \<Rightarrow> bool" where
  "balance_fetch_fails w =
     (case fst (makeRequest ''GET'' ''/api/v5/account/balance?ccy=USDT'' None w) of
        Inl err \<Rightarrow> True
      | Inr data \<Rightarrow>
          (case as_balances data of
             None \<Rightarrow> True
           | Some balances \<Rightarrow> balances = [] \<or> Details (hd balances) = []))"

definition positions_fetch_fails :: "world \<Rightarrow> bool" where
  "positions_fetch_fails w =
     (case fst (makeRequest ''GET'' ''/api/v5/account/positions'' None w) of
        Inl err \<Rightarrow> True
      | Inr data \<Rightarrow> as_positions data = None)"

text \<open>
  \<open>x\<close> is a multiple of \<open>step\<close> (for a positive step): the specification's
  \<^verbatim>\<open>x mod step = 0\<close>.
\<close>

definition multiple_of :: "real \<Rightarrow> real \<Rightarrow> bool" where
  "multiple_of step x \<longleftrightarrow> of_int \<lfloor>x / step\<rfloor> * step = x"

text \<open>
  The number that a plain decimal spelling denotes: an optional sign, digits, an
  optional point and digits, with a digit on at least one side of the point.
  It is the exact value of what the client sends to the exchange, with no
  rounding to a \<^verbatim>\<open>float64\<close>.
\<close>

fun nat_of_digits :: "nat \<Rightarrow> string \<Rightarrow> nat option" where
  "nat_of_digits acc [] = Some acc"
| "nat_of_digits acc (c # cs) =
     (case digit_of c of None \<Rightarrow> None | Some d \<Rightarrow> nat_of_digits (10 * acc + d) cs)"

definition decimal_value :: "string \<Rightarrow> real option" where
  "decimal_value s =
     (let neg = (s \<noteq> [] \<and> hd s = CHR ''-'');
          u = (if s \<noteq> [] \<and> (hd s = CHR ''-'' \<or> hd s = CHR ''+'') then tl s else s);
          ip = takeWhile (\<lambda>c. c \<noteq> CHR ''.'') u;
          fp = drop 1 (dropWhile (\<lambda>c. c \<noteq> CHR ''.'') u)
      in if ip = [] \<and> fp = [] then None
         else case (nat_of_digits 0 ip, nat_of_digits 0 fp) of
                (Some a, Some b) \<Rightarrow>
                  Some ((if neg then - 1 else 1) * (of_nat a + of_nat b / 10 ^ length fp))
              | _ \<Rightarrow> None)"

text \<open>A string of decimal digits.\<close>

definition is_digits :: "string \<Rightarrow> bool" where
  "is_digits s \<longleftrightarrow> (\<forall>c\<in>set s. \<exists>d<10. c = digit_char d)"


text \<open>The absolute value of a \<^verbatim>\<open>float64\<close>.\<close>

fun fabs :: "float64 \<Rightarrow> float64" where
  "fabs (Finite r) = Finite \<bar>r\<bar>"
| "fabs NegZero = Finite 0"
| "fabs PosInf = PosInf"
| "fabs NegInf = PosInf"
| "fabs NaN = NaN"

subsection \<open>Scenarios\<close>

text \<open>Concrete worlds and inputs on which the client is run below.\<close>

definition no_payload :: payload where
  "no_payload = \<lparr>as_instruments = None, as_balances = None, as_positions = None,
     as_orders = None, as_algo_orders = None\<rparr>"

definition world_of :: "(nat \<Rightarrow> request \<Rightarrow> outcome \<times> nat) \<Rightarrow> world" where
  "world_of f = \<lparr>now = 0, net = f, can_build = (\<lambda>r. True), sent = [], slept = [], logged = []\<rparr>"

definition balance_request :: request where
  "balance_request =
     \<lparr>req_method = ''GET'', req_endpoint = ''/api/v5/account/balance?ccy=USDT'', req_body = None\<rparr>"

text \<open>Every round trip ends after 30 seconds with a dial timeout.\<close>

definition timeout_world :: world where
  "timeout_world = world_of (\<lambda>k r. (TransportError ''i/o timeout'', 30 * Second))"

text \<open>The exchange answers every request with status 200 and \<^verbatim>\<open>{code:"51000", msg:"param error"}\<close>.\<close>

definition param_error :: envelope where
  "param_error = \<lparr>Code = ''51000'', Msg = ''param error'', Data = no_payload\<rparr>"

definition param_error_world :: world where
  "param_error_world = world_of (\<lambda>k r. (Response 200 ''{...}'' (Some param_error), Second))"

definition new_trader :: OKXTrader where
  "new_trader = \<lparr>secretKey = ''secret'', cachedBalance = None, balanceCacheTime = 0,
     cachedPositions = None, positionsCacheTime = 0, symbolPrecision = Map.empty,
     cacheDuration = 15 * Second\<rparr>"

text \<open>Time passing between two calls.\<close>

definition elapse :: "nat \<Rightarrow> world \<Rightarrow> world" where
  "elapse d w = w\<lparr>now := now w + d\<rparr>"

definition ok_envelope :: "payload \<Rightarrow> envelope" where
  "ok_envelope d = \<lparr>Code = ''0'', Msg = [], Data = d\<rparr>"

text \<open>The JSON text \<^verbatim>\<open>[]\<close> decodes to an empty slice at every slice type.\<close>

definition empty_list_payload :: payload where
  "empty_list_payload = \<lparr>as_instruments = Some [], as_balances = Some [], as_positions = Some [],
     as_orders = Some [], as_algo_orders = Some []\<rparr>"

definition positions_request :: request where
  "positions_request =
     \<lparr>req_method = ''GET'', req_endpoint = ''/api/v5/account/positions'', req_body = None\<rparr>"

text \<open>
  The account has no position: the exchange answers every request after one
  second with status 200 and \<^verbatim>\<open>{"code":"0","msg":"","data":[]}\<close>. \<^verbatim>\<open>GetPositions\<close> is
  called on a new client, and again five seconds after the first call returned.
\<close>

definition empty_positions_world :: world where
  "empty_positions_world =
     world_of (\<lambda>k r. (Response 200 ''{code:0,msg:,data:[]}'' (Some (ok_envelope empty_list_payload)), Second))"

definition first_positions_call ::
  "(error + (string \<rightharpoonup> jval) list option) \<times> OKXTrader \<times> world" where
  "first_positions_call = GetPositions new_trader empty_positions_world"

definition second_positions_call ::
  "(error + (string \<rightharpoonup> jval) list option) \<times> OKXTrader \<times> world" where
  "second_positions_call =
     GetPositions (fst (snd first_positions_call))
       (elapse (5 * Second) (snd (snd first_positions_call)))"

text \<open>
  A client whose two caches were filled at time 0, read 20 seconds later, when
  every round trip times out.
\<close>

definition stale_trader :: OKXTrader where
  "stale_trader = new_trader\<lparr>cachedBalance := Some (map_of [(''equity'', Finite 100)]),
     cachedPositions := Some []\<rparr>"

definition stale_world :: world where
  "stale_world = elapse (20 * Second) timeout_world"

text \<open>
  Three records from the exchange: no position, a short one of 4 contracts and a
  long one of 2.5.
\<close>

definition raw_position :: "string \<Rightarrow> string \<Rightarrow> position_record" where
  "raw_position inst p = \<lparr>pos_InstID = inst, Pos = p, AvgPx = ''100'', MarkPx = ''101'',
     LiqPx = [], Upl = ''0.5'', Margin = ''10'', Lever = ''10'', MgnMode = ''cross'',
     NotionalUsd = ''400''\<rparr>"

definition three_positions :: "position_record list" where
  "three_positions =
     [raw_position ''BTC-USDT-SWAP'' ''0'', raw_position ''ETH-USDT-SWAP'' ''-4'',
      raw_position ''SOL-USDT-SWAP'' ''2.5'']"

definition three_positions_world :: world where
  "three_positions_world =
     world_of (\<lambda>k r. (Response 200 ''{code:0,msg:,data:[...]}''
        (Some (ok_envelope (no_payload\<lparr>as_positions := Some three_positions\<rparr>))), Second))"

text \<open>The exchange cannot be reached: every round trip fails after one second.\<close>

definition refused_world :: world where
  "refused_world = world_of (\<lambda>k r. (TransportError ''connection refused'', Second))"




text \<open>
  The exchange answers every request after one second with one instrument,
  \<^verbatim>\<open>BTC-USDT-SWAP\<close>, with the given \<^verbatim>\<open>minSz\<close>, \<^verbatim>\<open>lotSz\<close> and \<^verbatim>\<open>tickSz\<close>.
\<close>

definition instrument :: "string \<Rightarrow> string \<Rightarrow> string \<Rightarrow> InstrumentInfo" where
  "instrument minSz lotSz tickSz =
     \<lparr>InstID = ''BTC-USDT-SWAP'', LotSz = lotSz, TickSz = tickSz, MinSz = minSz\<rparr>"

definition instrument_world :: "string \<Rightarrow> string \<Rightarrow> string \<Rightarrow> world" where
  "instrument_world minSz lotSz tickSz =
     world_of (\<lambda>k r. (Response 200 ''{code:0,msg:,data:[...]}''
        (Some (ok_envelope (no_payload\<lparr>as_instruments := Some [instrument minSz lotSz tickSz]\<rparr>))),
        Second))"


section \<open>Properties\<close>

subsection \<open>Strings\<close>

lemma Contains_char: "Contains s [c] \<longleftrightarrow> c \<in> set s"
  by (induction s) auto

lemma HasSuffix_append [simp]: "HasSuffix (b @ suf) suf"
  by (simp add: HasSuffix_def)

lemma HasSuffix_iff: "HasSuffix s suf \<longleftrightarrow> (\<exists>b. s = b @ suf)"
proof
  assume "HasSuffix s suf"
  then have "s = take (length s - length suf) s @ suf"
    by (metis HasSuffix_def append_take_drop_id)
  then show "\<exists>b. s = b @ suf" ..
next
  assume "\<exists>b. s = b @ suf"
  then show "HasSuffix s suf" by auto
qed

lemma TrimSuffix_append [simp]: "TrimSuffix (b @ suf) suf = b"
  by (simp add: TrimSuffix_def)

lemma TrimSuffix_same_iff: "TrimSuffix s suf = s \<longleftrightarrow> suf = [] \<or> \<not> HasSuffix s suf"
  by (auto simp: TrimSuffix_def HasSuffix_def)

lemma ReplaceAll_dash: "ReplaceAll s ''-'' '''' = filter (\<lambda>c. c \<noteq> CHR ''-'') s"
proof (induction s)
  case Nil
  show ?case by (subst ReplaceAll.simps) simp
next
  case (Cons c cs)
  show ?case
  proof (cases "c = CHR ''-''")
    case True
    have "ReplaceAll (c # cs) ''-'' '''' = ReplaceAll cs ''-'' ''''"
      by (subst ReplaceAll.simps) (simp add: True)
    with Cons True show ?thesis by simp
  next
    case False
    have "ReplaceAll (c # cs) ''-'' '''' = c # ReplaceAll cs ''-'' ''''"
      using False by (subst ReplaceAll.simps) auto
    with Cons False show ?thesis by simp
  qed
qed

subsection \<open>Symbol codec\<close>

lemma convertSymbol_USDT:
  assumes "CHR ''-'' \<notin> set b"
  shows "convertSymbol (b @ ''USDT'') = b @ ''-USDT-SWAP''"
proof -
  have "\<not> Contains (b @ ''USDT'') ''-''"
    using assms by (simp add: Contains_char)
  moreover have "TrimSuffix (b @ ''USDT'') ''USDT'' = b" by simp
  moreover have "b \<noteq> b @ ''USDT''" by simp
  ultimately show ?thesis by (simp add: convertSymbol_def)
qed

lemma convertSymbol_USD:
  assumes "CHR ''-'' \<notin> set b" and "\<not> HasSuffix (b @ ''USD'') ''USDT''"
  shows "convertSymbol (b @ ''USD'') = b @ ''-USD-SWAP''"
proof -
  have "\<not> Contains (b @ ''USD'') ''-''"
    using assms(1) by (simp add: Contains_char)
  moreover have "TrimSuffix (b @ ''USD'') ''USDT'' = b @ ''USD''"
    using assms(2) by (simp add: TrimSuffix_def)
  moreover have "TrimSuffix (b @ ''USD'') ''USD'' = b" by simp
  moreover have "b \<noteq> b @ ''USD''" by simp
  ultimately show ?thesis by (simp add: convertSymbol_def Let_def)
qed

lemma reverseSymbol_SWAP:
  assumes "CHR ''-'' \<notin> set b"
  shows "reverseSymbol (b @ ''-USDT-SWAP'') = b @ ''USDT''"
    and "reverseSymbol (b @ ''-USD-SWAP'') = b @ ''USD''"
proof -
  have f: "filter (\<lambda>c. c \<noteq> CHR ''-'') b = b"
    using assms by (induction b) auto
  have "TrimSuffix ((b @ ''-USDT'') @ ''-SWAP'') ''-SWAP'' = b @ ''-USDT''"
    by (rule TrimSuffix_append)
  then show "reverseSymbol (b @ ''-USDT-SWAP'') = b @ ''USDT''"
    by (simp add: reverseSymbol_def ReplaceAll_dash f)
  have "TrimSuffix ((b @ ''-USD'') @ ''-SWAP'') ''-SWAP'' = b @ ''-USD''"
    by (rule TrimSuffix_append)
  then show "reverseSymbol (b @ ''-USD-SWAP'') = b @ ''USD''"
    by (simp add: reverseSymbol_def ReplaceAll_dash f)
qed

text \<open>
  Claim C6. For every caller-format symbol \<open>s\<close> that contains no \<^verbatim>\<open>-\<close> and ends in
  \<^verbatim>\<open>USDT\<close> or \<^verbatim>\<open>USD\<close>, \<open>reverseSymbol (convertSymbol s) = s\<close>; in particular
  \<^verbatim>\<open>BTCUSDT\<close> is sent as \<^verbatim>\<open>BTC-USDT-SWAP\<close> and comes back as \<^verbatim>\<open>BTCUSDT\<close>. Both
  functions are total: the source has no error return and no indexing that can
  panic, and the model has no error branch.
\<close>

theorem reverseSymbol_convertSymbol:
  "(CHR ''-'' \<notin> set s \<and> (HasSuffix s ''USDT'' \<or> HasSuffix s ''USD'')
      \<longrightarrow> reverseSymbol (convertSymbol s) = s)
   \<and> convertSymbol ''BTCUSDT'' = ''BTC-USDT-SWAP''
   \<and> reverseSymbol ''BTC-USDT-SWAP'' = ''BTCUSDT''"
proof (intro conjI impI)
  assume a: "CHR ''-'' \<notin> set s \<and> (HasSuffix s ''USDT'' \<or> HasSuffix s ''USD'')"
  show "reverseSymbol (convertSymbol s) = s"
  proof (cases "HasSuffix s ''USDT''")
    case True
    then obtain b where b: "s = b @ ''USDT''" by (auto simp: HasSuffix_iff)
    with a have "CHR ''-'' \<notin> set b" by simp
    then show ?thesis
      by (simp add: b convertSymbol_USDT reverseSymbol_SWAP(1))
  next
    case False
    with a obtain b where b: "s = b @ ''USD''" by (auto simp: HasSuffix_iff)
    with a have nd: "CHR ''-'' \<notin> set b" by simp
    from False b have "\<not> HasSuffix (b @ ''USD'') ''USDT''" by simp
    with nd show ?thesis
      by (simp add: b convertSymbol_USD reverseSymbol_SWAP(2))
  qed
next
  have "convertSymbol ([] @ ''BTC'' @ ''USDT'') = ''BTC'' @ ''-USDT-SWAP''"
    using convertSymbol_USDT [of "''BTC''"] by simp
  then show "convertSymbol ''BTCUSDT'' = ''BTC-USDT-SWAP''" by simp
next
  show "reverseSymbol ''BTC-USDT-SWAP'' = ''BTCUSDT''"
    using reverseSymbol_SWAP(1) [of "''BTC''"] by simp
qed

theorem reverseSymbol_convertSymbol_witness:
  "CHR ''-'' \<notin> set ''ETHUSD'' \<and> HasSuffix ''ETHUSD'' ''USD''
   \<and> reverseSymbol (convertSymbol ''ETHUSD'') = ''ETHUSD''"
proof -
  have h: "CHR ''-'' \<notin> set ''ETHUSD'' \<and> (HasSuffix ''ETHUSD'' ''USDT'' \<or> HasSuffix ''ETHUSD'' ''USD'')"
    by (simp add: HasSuffix_def)
  from reverseSymbol_convertSymbol [of "''ETHUSD''"] h
  show ?thesis by (simp add: HasSuffix_def)
qed

subsection \<open>Transport\<close>

lemma Do_eq:
  "net w (length (sent w)) req = (out, d) \<Longrightarrow>
   Do req w = (out, w\<lparr>now := now w + d, sent := sent w @ [req]\<rparr>)"
  by (simp add: Do_def)

lemma retryable_timeout: "retryable ''i/o timeout''"
  by (simp add: retryable_def)

text \<open>
  The statement after the retry loop (line 250) is dead code: the loop leaves by
  a \<^verbatim>\<open>return\<close> in every iteration that does not \<^verbatim>\<open>continue\<close>, and the last
  iteration cannot \<^verbatim>\<open>continue\<close>.
\<close>

lemma makeRequest_loop_never_ErrRetried:
  "attempt \<le> maxRetries \<Longrightarrow>
   fst (makeRequest_loop maxRetries attempt lastErr req w) \<noteq> Inl (ErrRetried n e)"
proof (induction maxRetries attempt lastErr req w rule: makeRequest_loop.induct)
  case (1 maxRetries attempt lastErr req w)
  show ?case
  proof (cases "Do req w")
    case (Pair out w1)
    show ?thesis
    proof (cases out)
      case (TransportError x)
      show ?thesis
      proof (cases "attempt < maxRetries \<and> retryable x")
        case True
        then have "attempt + 1 \<le> maxRetries" by simp
        with "1.IH" [OF "1.prems" Pair [symmetric] TransportError True]
        have "fst (makeRequest_loop maxRetries (attempt + 1) (Some (ErrHTTPRequest x)) req
                 (Sleep (attempt * Second) w1)) \<noteq> Inl (ErrRetried n e)" by simp
        then show ?thesis
          using "1.prems" Pair TransportError True
          by (subst makeRequest_loop.simps) simp
      next
        case False
        then show ?thesis
          using "1.prems" Pair TransportError
          by (subst makeRequest_loop.simps) auto
      qed
    next
      case (ReadError x)
      then show ?thesis
        using "1.prems" Pair by (subst makeRequest_loop.simps) simp
    next
      case (Response status body env)
      then show ?thesis
        using "1.prems" Pair
        by (subst makeRequest_loop.simps) (simp split: option.splits)
    qed
  qed
qed

lemma makeRequest_never_ErrRetried:
  "fst (makeRequest method endpoint body w) \<noteq> Inl (ErrRetried n e)"
  using makeRequest_loop_never_ErrRetried [of 1 3]
  by (simp add: makeRequest_def Let_def)

text \<open>
  Claim C3. When every attempt ends in a transport error whose text contains
  \<^verbatim>\<open>timeout\<close>, \<^verbatim>\<open>makeRequest\<close> retries after attempts 1 and 2, sleeping 1 s and then
  2 s, and makes three round trips. The error it returns after the third attempt
  is the one of line 204 ("HTTP request failed", wrapping the transport error),
  returned by line 211; it is not the error of line 250 ("request failed, retried
  3 times"), which the claim expects.
\<close>

theorem makeRequest_three_timeouts:
  "makeRequest ''GET'' ''/api/v5/account/balance?ccy=USDT'' None timeout_world =
     (Inl (ErrHTTPRequest ''i/o timeout''),
      timeout_world\<lparr>now := 93 * Second,
        sent := [balance_request, balance_request, balance_request],
        slept := [1 * Second, 2 * Second]\<rparr>)"
  by (simp add: makeRequest_def Let_def timeout_world_def world_of_def makeRequest_loop.simps
      Do_def Sleep_def retryable_timeout balance_request_def Second_def)

text \<open>
  Claim C5. When the first round trip of \<^verbatim>\<open>makeRequest\<close> returns status 200 with an
  envelope whose \<^verbatim>\<open>code\<close> is not \<^verbatim>\<open>"0"\<close>, the call returns the error
  "OKX API error [code]: msg" with the envelope's code and message, after that
  one round trip: one request is added to those sent, and nothing is added to
  the sleeps.
\<close>

theorem makeRequest_envelope_error:
  assumes "can_build w \<lparr>req_method = method, req_endpoint = endpoint, req_body = body\<rparr>"
    and "net w (length (sent w)) \<lparr>req_method = method, req_endpoint = endpoint, req_body = body\<rparr>
           = (Response 200 raw (Some env), d)"
    and "Code env \<noteq> ''0''"
  shows "makeRequest method endpoint body w =
           (Inl (ErrAPI (Code env) (Msg env)),
            w\<lparr>now := now w + d,
              sent := sent w @ [\<lparr>req_method = method, req_endpoint = endpoint, req_body = body\<rparr>]\<rparr>)"
  using assms
  by (simp add: makeRequest_def Let_def makeRequest_loop.simps [of 3 "Suc 0"] Do_eq)

theorem makeRequest_envelope_error_witness:
  "makeRequest ''POST'' ''/api/v5/trade/order'' None param_error_world =
     (Inl (ErrAPI ''51000'' ''param error''),
      param_error_world\<lparr>now := Second,
        sent := [\<lparr>req_method = ''POST'', req_endpoint = ''/api/v5/trade/order'', req_body = None\<rparr>]\<rparr>)"
  using makeRequest_envelope_error [of param_error_world "''POST''" "''/api/v5/trade/order''" None
      "''{...}''" param_error Second]
  by (simp add: param_error_world_def world_of_def param_error_def)

subsection \<open>Rounding to a \<^verbatim>\<open>float64\<close>\<close>

lemma halvings_stop: "x < 2 \<Longrightarrow> halvings n x = 0"
  by (cases n) simp_all

lemma halvings_step: "2 \<le> x \<Longrightarrow> 0 < n \<Longrightarrow> halvings n x = Suc (halvings (n - 1) (x / 2))"
  by (cases n) simp_all

lemma doublings_stop: "1 \<le> x \<Longrightarrow> doublings n x = 0"
  by (cases n) simp_all

lemma doublings_step: "x < 1 \<Longrightarrow> 0 < n \<Longrightarrow> doublings n x = Suc (doublings (n - 1) (2 * x))"
  by (cases n) simp_all

lemma halvings_le: "x < 2 ^ Suc k \<Longrightarrow> halvings n x \<le> k"
proof (induction n arbitrary: x k)
  case 0
  show ?case by simp
next
  case (Suc n)
  show ?case
  proof (cases "x < 2")
    case True
    then show ?thesis by simp
  next
    case False
    with Suc.prems obtain k' where k: "k = Suc k'" by (cases k) auto
    from Suc.prems have "x / 2 < 2 ^ Suc k'" by (simp add: k)
    then have "halvings n (x / 2) \<le> k'" by (rule Suc.IH)
    with False show ?thesis by (simp add: k)
  qed
qed

lemma exponent_le: "x < 2 ^ Suc k \<Longrightarrow> exponent x \<le> int k"
  using halvings_le [of x k 1024] by (simp add: exponent_def)

lemma round_half_even_bounds:
  assumes "0 \<le> y"
  shows "\<lfloor>y\<rfloor> \<le> int (round_half_even y)" and "int (round_half_even y) \<le> \<lceil>y\<rceil>"
proof -
  have f: "0 \<le> \<lfloor>y\<rfloor>" using assms by simp
  show "\<lfloor>y\<rfloor> \<le> int (round_half_even y)"
    using f by (simp add: round_half_even_def Let_def)
  show "int (round_half_even y) \<le> \<lceil>y\<rceil>"
  proof (cases "y = of_int \<lfloor>y\<rfloor>")
    case True
    then have "y - of_int \<lfloor>y\<rfloor> < 1 / 2" by simp
    then have "int (round_half_even y) = \<lfloor>y\<rfloor>"
      using f by (simp add: round_half_even_def Let_def)
    then show ?thesis by (simp add: floor_le_ceiling)
  next
    case False
    then have "\<lceil>y\<rceil> = \<lfloor>y\<rfloor> + 1" by (simp add: ceiling_altdef)
    then show ?thesis using f by (simp add: round_half_even_def Let_def)
  qed
qed

text \<open>
  Below \<open>2 ^ 53\<close> the values of the format include the whole numbers, so
  rounding does not cross one.
\<close>

lemma nearest_between:
  assumes "0 < x" and "x < 2 ^ 53"
  shows "of_int i \<le> x \<Longrightarrow> of_int i \<le> nearest x"
    and "x \<le> of_int j \<Longrightarrow> nearest x \<le> of_int j"
proof -
  define d where "d = nat (52 - exponent x)"
  have e: "exponent x \<le> 52" using exponent_le [of x 52] assms(2) by simp
  have u: "pow2 (exponent x - 52) = 1 / 2 ^ d"
  proof (cases "exponent x = 52")
    case True
    then show ?thesis by (simp add: pow2_def d_def)
  next
    case False
    with e have "exponent x - 52 < 0" by simp
    then show ?thesis by (simp add: pow2_def d_def)
  qed
  have n: "nearest x = of_nat (round_half_even (x * 2 ^ d)) / 2 ^ d"
    by (simp add: nearest_def Let_def u)
  have y: "0 \<le> x * 2 ^ d" using assms(1) by simp
  {
    assume "of_int i \<le> x"
    then have "of_int (i * 2 ^ d) \<le> x * 2 ^ d" by simp
    then have "i * 2 ^ d \<le> \<lfloor>x * 2 ^ d\<rfloor>" by (simp only: le_floor_iff)
    also have "\<dots> \<le> int (round_half_even (x * 2 ^ d))" by (rule round_half_even_bounds(1) [OF y])
    finally have "(of_int (i * 2 ^ d) :: real) \<le> of_int (int (round_half_even (x * 2 ^ d)))"
      by (simp only: of_int_le_iff)
    then have "(of_int i :: real) * 2 ^ d \<le> of_nat (round_half_even (x * 2 ^ d))" by simp
    then show "of_int i \<le> nearest x" by (simp add: n pos_le_divide_eq)
  }
  {
    assume "x \<le> of_int j"
    then have "x * 2 ^ d \<le> of_int (j * 2 ^ d)" by simp
    then have "\<lceil>x * 2 ^ d\<rceil> \<le> j * 2 ^ d" by (simp only: ceiling_le_iff)
    with round_half_even_bounds(2) [OF y]
    have "int (round_half_even (x * 2 ^ d)) \<le> j * 2 ^ d" by simp
    then have "(of_int (int (round_half_even (x * 2 ^ d))) :: real) \<le> of_int (j * 2 ^ d)"
      by (simp only: of_int_le_iff)
    then have "(of_nat (round_half_even (x * 2 ^ d)) :: real) \<le> of_int j * 2 ^ d" by simp
    then show "nearest x \<le> of_int j" by (simp add: n pos_divide_le_eq)
  }
qed

lemma nearest_of_nat:
  assumes "0 < n" and "n < 2 ^ 53"
  shows "nearest (of_nat n) = of_nat n"
proof -
  have p: "(0::real) < of_nat n" "(of_nat n :: real) < 2 ^ 53"
    using assms by (simp_all add: of_nat_less_numeral_power_cancel_iff)
  have "(of_int (int n) :: real) \<le> nearest (of_nat n)"
    by (rule nearest_between(1) [OF p]) simp
  moreover have "nearest (of_nat n) \<le> (of_int (int n) :: real)"
    by (rule nearest_between(2) [OF p]) simp
  ultimately show ?thesis by simp
qed

lemma round64_Finite:
  assumes "0 < x" and "0 < nearest x" and "nearest x \<le> 2 ^ 53"
  shows "round64 x = Finite (nearest x)"
proof -
  have "(2::real) ^ 53 < 2 ^ 1024" by simp
  with assms(3) have "\<not> 2 ^ 1024 \<le> nearest x" by linarith
  with assms(1,2) show ?thesis by (simp add: round64_def Let_def)
qed

lemma round64_of_nat:
  assumes "0 < n" and "n < 2 ^ 53"
  shows "round64 (of_nat n) = Finite (of_nat n)"
proof -
  have n: "nearest (of_nat n) = of_nat n" by (rule nearest_of_nat [OF assms])
  have "(of_nat n :: real) \<le> 2 ^ 53"
    using assms(2) by (simp add: of_nat_less_numeral_power_cancel_iff less_imp_le)
  then show ?thesis
    using round64_Finite [of "of_nat n"] assms(1) n by simp
qed

subsection \<open>Numbers and their decimal spelling\<close>

lemma show_nat_small: "n < 10 \<Longrightarrow> show_nat n = [digit_char n]"
  by (subst show_nat.simps) simp

lemma show_nat_big: "10 \<le> n \<Longrightarrow> show_nat n = show_nat (n div 10) @ [digit_char (n mod 10)]"
  by (subst show_nat.simps) simp

lemma pad_digits_pos:
  "0 < k \<Longrightarrow> pad_digits k m = pad_digits (k - 1) (m div 10) @ [digit_char (m mod 10)]"
  by (cases k) simp_all

text \<open>
  The rules that evaluate the parser, the rounding and the rendering on a
  given input.
\<close>

lemmas parse_eval = parse_or_zero_def ParseFloat_def special_def eq_fold_def has_sign_def
  unsigned_def readFloat_def digits_of_def number_of_def mant_digit_of_def digit_of_def
  hex_letter_of_def exponent_of_def underscoreOK_def Let_def

lemmas round_eval = round64_def nearest_def exponent_def pow2_def halvings_stop halvings_step
  doublings_stop doublings_step round_half_even_def zero_of_def inf_of_def Let_def

lemmas format_eval = format_digits_def round_half_even_def Let_def show_nat_small show_nat_big
  pad_digits_pos digit_char_def TrimRight_def

lemmas float_eval = fmul_def fdiv_def fle_def fgt_def feq_def is_inf_def is_zero_def

lemma digit_char_cases:
  assumes "d < 10"
  shows "d = 0 \<or> d = 1 \<or> d = 2 \<or> d = 3 \<or> d = 4 \<or> d = 5 \<or> d = 6 \<or> d = 7 \<or> d = 8 \<or> d = (9::nat)"
  using assms by arith

lemma digit_of_digit_char: "d < 10 \<Longrightarrow> digit_of (digit_char d) = Some d"
  using digit_char_cases [of d] by (auto simp: digit_of_def digit_char_def)

lemma digit_char_not_special:
  "d < 10 \<Longrightarrow> digit_char d \<noteq> CHR ''.'' \<and> digit_char d \<noteq> CHR ''-'' \<and> digit_char d \<noteq> CHR ''+''"
  using digit_char_cases [of d] by (auto simp: digit_char_def)


lemma is_digits_simps [simp]:
  "is_digits []"
  "is_digits (xs @ ys) \<longleftrightarrow> is_digits xs \<and> is_digits ys"
  "d < 10 \<Longrightarrow> is_digits [digit_char d]"
  by (auto simp: is_digits_def)

lemma nat_of_digits_snoc:
  "d < 10 \<Longrightarrow>
   nat_of_digits acc (xs @ [digit_char d]) = map_option (\<lambda>n. 10 * n + d) (nat_of_digits acc xs)"
  by (induction xs arbitrary: acc) (auto simp: digit_of_digit_char split: option.splits)

lemma is_digits_show_nat: "is_digits (show_nat n)"
proof (induction n rule: show_nat.induct)
  case (1 n)
  show ?case
  proof (cases "n < 10")
    case True
    then show ?thesis by (simp add: show_nat_small)
  next
    case False
    then show ?thesis using "1.IH" by (simp add: show_nat_big)
  qed
qed

lemma show_nat_nonempty: "show_nat n \<noteq> []"
  by (subst show_nat.simps) simp

lemma nat_of_digits_show_nat: "nat_of_digits 0 (show_nat n) = Some n"
proof (induction n rule: show_nat.induct)
  case (1 n)
  show ?case
  proof (cases "n < 10")
    case True
    then show ?thesis by (simp add: show_nat_small digit_of_digit_char)
  next
    case False
    then have "nat_of_digits 0 (show_nat (n div 10)) = Some (n div 10)" using "1.IH" by simp
    then show ?thesis using False by (simp add: show_nat_big nat_of_digits_snoc)
  qed
qed

lemma is_digits_not_special:
  assumes "is_digits s" and "c \<in> set s"
  shows "c \<noteq> CHR ''.'' \<and> c \<noteq> CHR ''-'' \<and> c \<noteq> CHR ''+''"
proof -
  from assms obtain d where "d < 10" and "c = digit_char d" by (auto simp: is_digits_def)
  then show ?thesis using digit_char_not_special [of d] by simp
qed

lemma is_digits_no_point: "is_digits s \<Longrightarrow> CHR ''.'' \<notin> set s"
  using is_digits_not_special by blast

lemma is_digits_hd: "is_digits s \<Longrightarrow> s \<noteq> [] \<Longrightarrow> hd s \<noteq> CHR ''-'' \<and> hd s \<noteq> CHR ''+''"
  using is_digits_not_special [of s "hd s"] by simp

text \<open>A string of digits denotes the number it spells.\<close>

lemma decimal_value_digits:
  assumes "is_digits s" and "s \<noteq> []" and "nat_of_digits 0 s = Some n"
  shows "decimal_value s = Some (of_nat n)"
proof -
  have np: "\<forall>c\<in>set s. c \<noteq> CHR ''.''" using is_digits_no_point [OF assms(1)] by auto
  then have t: "takeWhile (\<lambda>c. c \<noteq> CHR ''.'') s = s" and d: "dropWhile (\<lambda>c. c \<noteq> CHR ''.'') s = []"
    by simp_all
  show ?thesis
    using is_digits_hd [OF assms(1,2)] assms(2,3)
    by (simp add: decimal_value_def Let_def t d)
qed

lemma decimal_value_show_nat: "decimal_value (show_nat n) = Some (of_nat n)"
  by (rule decimal_value_digits [OF is_digits_show_nat show_nat_nonempty nat_of_digits_show_nat])

lemma round_half_even_of_nat [simp]: "round_half_even (of_nat n) = n"
  by (simp add: round_half_even_def)

lemma format_digits_of_nat_0: "format_digits (of_nat n) 0 = show_nat n"
  by (simp add: format_digits_def)

subsection \<open>Rounding errors\<close>














subsection \<open>Trimming an exact rendering\<close>



lemma length_pad_digits [simp]: "length (pad_digits k m) = k"
  by (induction k arbitrary: m) simp_all




lemma TrimRight_Nil [simp]: "TrimRight [] cs = []"
  by (simp add: TrimRight_def)







subsection \<open>Account state\<close>

lemma GetBalance_hit:
  "cachedBalance t = Some b \<Longrightarrow> now w - balanceCacheTime t < cacheDuration t \<Longrightarrow>
   GetBalance t w = (Inr b, t, w)"
  by (simp add: GetBalance_def)

lemma GetPositions_hit:
  "cachedPositions t = Some ps \<Longrightarrow> now w - positionsCacheTime t < cacheDuration t \<Longrightarrow>
   GetPositions t w = (Inr (Some ps), t, w)"
  by (simp add: GetPositions_def)

lemma GetBalance_error_keeps_trader:
  "fst (GetBalance t w) = Inl e \<Longrightarrow> fst (snd (GetBalance t w)) = t"
  by (auto simp: GetBalance_def Let_def split: if_splits prod.splits sum.splits option.splits)

lemma GetPositions_error_keeps_trader:
  "fst (GetPositions t w) = Inl e \<Longrightarrow> fst (snd (GetPositions t w)) = t"
  by (auto simp: GetPositions_def Let_def split: if_splits prod.splits sum.splits option.splits)

lemma GetBalance_stores:
  assumes "GetBalance t w = (Inr b, t', w')"
  shows "cachedBalance t' = Some b"
  using assms
  by (auto simp: GetBalance_def Let_def split: if_splits prod.splits sum.splits option.splits)

lemma GetBalance_time:
  assumes "GetBalance t w = (Inr b, t', w')"
    and "\<not> (cachedBalance t \<noteq> None \<and> now w - balanceCacheTime t < cacheDuration t)"
  shows "balanceCacheTime t' = now w' \<and> cacheDuration t' = cacheDuration t"
  using assms
  by (auto simp: GetBalance_def Let_def split: if_splits prod.splits sum.splits option.splits)

lemma GetPositions_loop_elems:
  "elems (GetPositions_loop ps acc) =
     elems acc @ map normalize_position
       (filter (\<lambda>p. \<not> feq (parse_or_zero (Pos p)) (Finite 0)) ps)"
proof (induction ps arbitrary: acc)
  case Nil
  show ?case by simp
next
  case (Cons p ps)
  show ?case
  proof (cases "feq (parse_or_zero (Pos p)) (Finite 0)")
    case True
    then show ?thesis by (simp add: Cons.IH)
  next
    case False
    have "elems (append_slice acc (normalize_position p)) = elems acc @ [normalize_position p]"
      by (cases acc) simp_all
    with False show ?thesis by (simp add: Cons.IH)
  qed
qed

lemma GetPositions_loop_Some: "GetPositions_loop ps (Some xs) \<noteq> None"
  by (induction ps arbitrary: xs) auto

lemma GetPositions_loop_nil_iff:
  "GetPositions_loop ps None = None \<longleftrightarrow>
     (\<forall>p\<in>set ps. feq (parse_or_zero (Pos p)) (Finite 0))"
proof (induction ps)
  case Nil
  show ?case by simp
next
  case (Cons p ps)
  then show ?case using GetPositions_loop_Some [of ps "[normalize_position p]"] by auto
qed

text \<open>Below zero, the opposite is the absolute value; a zero is not below zero.\<close>

lemma fneg_fabs: "flt x (Finite 0) \<Longrightarrow> fneg x = fabs x"
  by (cases x) (auto split: if_splits)

lemma flt_zero_not_feq: "flt x (Finite 0) \<Longrightarrow> \<not> feq x (Finite 0)"
  by (cases x) (auto simp: feq_def)

lemma feq_zero_iff: "feq x (Finite 0) \<longleftrightarrow> x = Finite 0 \<or> x = NegZero"
  by (cases x) (auto simp: feq_def)

lemma feq_zero_fneg: "feq (fneg x) (Finite 0) \<longleftrightarrow> feq x (Finite 0)"
  by (cases x) (auto simp: feq_def)

lemma normalize_position_short:
  assumes "flt (parse_or_zero (Pos p)) (Finite 0)"
  shows "normalize_position p ''side'' = Some (Str ''short'')"
    and "normalize_position p ''positionAmt'' = Some (Num (fabs (parse_or_zero (Pos p))))"
  using assms by (simp_all add: normalize_position_def Let_def fneg_fabs)

lemma normalize_position_amount:
  "\<exists>a. normalize_position p ''positionAmt'' = Some (Num a)
     \<and> (feq a (Finite 0) \<longleftrightarrow> feq (parse_or_zero (Pos p)) (Finite 0))"
  by (simp add: normalize_position_def Let_def feq_zero_fneg)

lemma makeRequest_ok:
  assumes "can_build w \<lparr>req_method = method, req_endpoint = endpoint, req_body = body\<rparr>"
    and "net w (length (sent w)) \<lparr>req_method = method, req_endpoint = endpoint, req_body = body\<rparr>
           = (Response 200 raw (Some env), d)"
    and "Code env = ''0''"
  shows "makeRequest method endpoint body w =
           (Inr (Data env),
            w\<lparr>now := now w + d,
              sent := sent w @ [\<lparr>req_method = method, req_endpoint = endpoint, req_body = body\<rparr>]\<rparr>)"
  using assms
  by (simp add: makeRequest_def Let_def makeRequest_loop.simps [of 3 "Suc 0"] Do_eq)

lemma first_positions_call_eq:
  "first_positions_call =
     (Inr None, new_trader\<lparr>positionsCacheTime := Second\<rparr>,
      empty_positions_world\<lparr>now := Second, sent := [positions_request]\<rparr>)"
proof -
  have "makeRequest ''GET'' ''/api/v5/account/positions'' None empty_positions_world =
          (Inr empty_list_payload,
           empty_positions_world\<lparr>now := Second, sent := [positions_request]\<rparr>)"
    using makeRequest_ok [of empty_positions_world "''GET''" "''/api/v5/account/positions''" None
        "''{code:0,msg:,data:[]}''" "ok_envelope empty_list_payload" Second]
    by (simp add: empty_positions_world_def world_of_def ok_envelope_def positions_request_def)
  then show ?thesis
    by (simp add: first_positions_call_def GetPositions_def new_trader_def empty_list_payload_def)
qed

text \<open>
  Claim C2. Two successive calls of \<^verbatim>\<open>GetBalance\<close>, or of \<^verbatim>\<open>GetPositions\<close>, the
  second less than 15 seconds after the first one's fetch, should send one HTTP
  request in total, also when the exchange returns an empty list of positions.
  On an account with no position the code does not do so: the first call
  returns the \<^verbatim>\<open>nil\<close> slice that \<^verbatim>\<open>result\<close> still is and stores it in
  \<^verbatim>\<open>cachedPositions\<close>; the second call, five seconds later, finds
  \<^verbatim>\<open>cachedPositions == nil\<close>, takes that for an empty cache and sends a second
  request.
\<close>

theorem GetPositions_empty_refetched:
  "fst first_positions_call = Inr None
   \<and> sent (snd (snd first_positions_call)) = [positions_request]
   \<and> now (elapse (5 * Second) (snd (snd first_positions_call)))
        - positionsCacheTime (fst (snd first_positions_call)) = 5 * Second
   \<and> fst second_positions_call = Inr None
   \<and> sent (snd (snd second_positions_call)) = [positions_request, positions_request]"
proof -
  let ?w = "elapse (5 * Second) (empty_positions_world\<lparr>now := Second, sent := [positions_request]\<rparr>)"
  have "makeRequest ''GET'' ''/api/v5/account/positions'' None ?w =
          (Inr empty_list_payload,
           ?w\<lparr>now := 7 * Second, sent := [positions_request, positions_request]\<rparr>)"
    using makeRequest_ok [of ?w "''GET''" "''/api/v5/account/positions''" None
        "''{code:0,msg:,data:[]}''" "ok_envelope empty_list_payload" Second]
    by (simp add: empty_positions_world_def world_of_def ok_envelope_def positions_request_def
        elapse_def Second_def)
  then have sc: "second_positions_call =
     (Inr None, new_trader\<lparr>positionsCacheTime := 7 * Second\<rparr>,
      ?w\<lparr>now := 7 * Second, sent := [positions_request, positions_request]\<rparr>)"
    by (simp add: second_positions_call_def first_positions_call_eq GetPositions_def new_trader_def
        empty_list_payload_def)
  have s: "fst second_positions_call = Inr None"
    "sent (snd (snd second_positions_call)) = [positions_request, positions_request]"
    unfolding sc by simp_all
  show ?thesis
    unfolding s by (simp add: first_positions_call_eq elapse_def)
qed

text \<open>
  What holds of the two caches: a call that succeeds leaves its result in the
  cache, and a call within the time to live returns it without touching the
  world, so without a request. For \<^verbatim>\<open>GetPositions\<close> this needs a result that is
  not \<^verbatim>\<open>nil\<close>.
\<close>

lemma GetBalance_second_call:
  assumes "GetBalance t w = (Inr b, t1, w1)"
    and "now w2 - balanceCacheTime t1 < cacheDuration t1"
  shows "GetBalance t1 w2 = (Inr b, t1, w2)"
  using GetBalance_stores [OF assms(1)] assms(2) by (rule GetBalance_hit)

lemma GetPositions_second_call:
  assumes "GetPositions t w = (Inr (Some ps), t1, w1)"
    and "now w2 - positionsCacheTime t1 < cacheDuration t1"
  shows "GetPositions t1 w2 = (Inr (Some ps), t1, w2)"
proof -
  from assms(1) have "cachedPositions t1 = Some ps"
    by (auto simp: GetPositions_def Let_def split: if_splits prod.splits sum.splits option.splits)
  then show ?thesis using assms(2) by (rule GetPositions_hit)
qed

text \<open>
  Two calls and one request: when the first call of \<^verbatim>\<open>GetBalance\<close> finds no valid
  cache and its first round trip is answered with a balance, it sends that one
  request, and any call less than the time to live after it sends none and
  returns the same payload. The same holds of \<^verbatim>\<open>GetPositions\<close> when at least one
  position has a \<^verbatim>\<open>pos\<close> that is not 0.
\<close>

lemma GetBalance_twice_one_request:
  assumes "\<not> balance_cache_valid t w"
    and "can_build w balance_request"
    and "net w (length (sent w)) balance_request = (Response 200 raw (Some env), d)"
    and "Code env = ''0''"
    and "as_balances (Data env) = Some balances"
    and "balances \<noteq> []" and "Details (hd balances) \<noteq> []"
  shows "\<exists>b t1 w1. GetBalance t w = (Inr b, t1, w1) \<and> sent w1 = sent w @ [balance_request]
     \<and> (\<forall>w2. now w2 - now w1 < cacheDuration t \<longrightarrow> GetBalance t1 w2 = (Inr b, t1, w2))"
proof -
  let ?w1 = "w\<lparr>now := now w + d, sent := sent w @ [balance_request]\<rparr>"
  let ?b = "balance_result (hd balances) (hd (Details (hd balances)))"
  let ?t1 = "t\<lparr>cachedBalance := Some ?b, balanceCacheTime := now ?w1\<rparr>"
  have m: "makeRequest ''GET'' ''/api/v5/account/balance?ccy=USDT'' None w = (Inr (Data env), ?w1)"
    using makeRequest_ok [of w "''GET''" "''/api/v5/account/balance?ccy=USDT''" None raw env d]
      assms(2,3,4)
    by (simp add: balance_request_def)
  have g: "GetBalance t w = (Inr ?b, ?t1, ?w1)"
    using assms(1,5,6,7) m by (auto simp: GetBalance_def balance_cache_valid_def Let_def)
  have "GetBalance ?t1 w2 = (Inr ?b, ?t1, w2)" if "now w2 - now ?w1 < cacheDuration t" for w2
    using that by (intro GetBalance_hit) simp_all
  with g show ?thesis by (intro exI [of _ ?b] exI [of _ ?t1] exI [of _ ?w1]) simp
qed

lemma GetPositions_twice_one_request:
  assumes "\<not> positions_cache_valid t w"
    and "can_build w positions_request"
    and "net w (length (sent w)) positions_request = (Response 200 raw (Some env), d)"
    and "Code env = ''0''"
    and "as_positions (Data env) = Some positions"
    and "\<exists>p\<in>set positions. \<not> feq (parse_or_zero (Pos p)) (Finite 0)"
  shows "\<exists>r t1 w1. GetPositions t w = (Inr r, t1, w1) \<and> sent w1 = sent w @ [positions_request]
     \<and> (\<forall>w2. now w2 - now w1 < cacheDuration t \<longrightarrow> GetPositions t1 w2 = (Inr r, t1, w2))"
proof -
  let ?w1 = "w\<lparr>now := now w + d, sent := sent w @ [positions_request]\<rparr>"
  let ?r = "GetPositions_loop positions None"
  let ?t1 = "t\<lparr>cachedPositions := ?r, positionsCacheTime := now ?w1\<rparr>"
  from assms(6) have "?r \<noteq> None" by (simp add: GetPositions_loop_nil_iff)
  then obtain ps where r: "?r = Some ps" by blast
  have m: "makeRequest ''GET'' ''/api/v5/account/positions'' None w = (Inr (Data env), ?w1)"
    using makeRequest_ok [of w "''GET''" "''/api/v5/account/positions''" None raw env d]
      assms(2,3,4)
    by (simp add: positions_request_def)
  have g: "GetPositions t w = (Inr ?r, ?t1, ?w1)"
    using assms(1,5) m by (auto simp: GetPositions_def positions_cache_valid_def Let_def)
  have "GetPositions ?t1 w2 = (Inr ?r, ?t1, w2)" if "now w2 - now ?w1 < cacheDuration t" for w2
    using that GetPositions_hit [of ?t1 ps w2] r by simp
  with g show ?thesis by (intro exI [of _ ?r] exI [of _ ?t1] exI [of _ ?w1]) simp
qed

text \<open>
  Each kind of failure of the first attempt makes \<^verbatim>\<open>makeRequest\<close> return an error
  (a retryable transport error leads to the next attempt instead).
\<close>

lemma makeRequest_first_attempt_fails:
  assumes "can_build w \<lparr>req_method = method, req_endpoint = endpoint, req_body = body\<rparr>"
    and "net w (length (sent w)) \<lparr>req_method = method, req_endpoint = endpoint, req_body = body\<rparr>
           = (out, d)"
    and "(\<exists>e. out = TransportError e \<and> \<not> retryable e) \<or> (\<exists>e. out = ReadError e)
         \<or> (\<exists>status raw env. out = Response status raw env \<and> status \<noteq> 200)
         \<or> (\<exists>raw. out = Response 200 raw None)
         \<or> (\<exists>raw env. out = Response 200 raw (Some env) \<and> Code env \<noteq> ''0'')"
  shows "\<exists>err. fst (makeRequest method endpoint body w) = Inl err"
  using assms
  by (auto simp: makeRequest_def Let_def makeRequest_loop.simps [of 3 "Suc 0"] Do_eq
      split: option.splits)

text \<open>
  Claim C10. When the fetch fails (\<^verbatim>\<open>makeRequest\<close> returns an error, whether from
  the transport, a status other than 200, an envelope code other than \<^verbatim>\<open>"0"\<close>
  or a body that does not decode; or the payload does not decode; or the
  balance has no account or no detail), \<^verbatim>\<open>GetBalance\<close> and \<^verbatim>\<open>GetPositions\<close> return
  an error and leave the client as it was: both cached payloads and both fetch
  times are unchanged, so whatever the caches served before they serve
  afterwards. More generally, whenever either call returns an error the client
  is unchanged.
\<close>

theorem failed_fetch_keeps_cache:
  "(\<not> balance_cache_valid t w \<and> balance_fetch_fails w \<longrightarrow>
      (\<exists>e. fst (GetBalance t w) = Inl e) \<and> fst (snd (GetBalance t w)) = t)
   \<and> (\<not> positions_cache_valid t w \<and> positions_fetch_fails w \<longrightarrow>
      (\<exists>e. fst (GetPositions t w) = Inl e) \<and> fst (snd (GetPositions t w)) = t)
   \<and> (\<forall>e. fst (GetBalance t w) = Inl e \<longrightarrow> fst (snd (GetBalance t w)) = t)
   \<and> (\<forall>e. fst (GetPositions t w) = Inl e \<longrightarrow> fst (snd (GetPositions t w)) = t)"
proof (intro conjI impI allI)
  assume a: "\<not> balance_cache_valid t w \<and> balance_fetch_fails w"
  then show "\<exists>e. fst (GetBalance t w) = Inl e"
    by (auto simp: balance_cache_valid_def balance_fetch_fails_def GetBalance_def Let_def
        split: prod.splits sum.splits option.splits)
  then show "fst (snd (GetBalance t w)) = t"
    by (auto dest: GetBalance_error_keeps_trader)
next
  assume a: "\<not> positions_cache_valid t w \<and> positions_fetch_fails w"
  then show "\<exists>e. fst (GetPositions t w) = Inl e"
    by (auto simp: positions_cache_valid_def positions_fetch_fails_def GetPositions_def Let_def
        split: prod.splits sum.splits option.splits)
  then show "fst (snd (GetPositions t w)) = t"
    by (auto dest: GetPositions_error_keeps_trader)
next
  fix e assume "fst (GetBalance t w) = Inl e"
  then show "fst (snd (GetBalance t w)) = t" by (rule GetBalance_error_keeps_trader)
next
  fix e assume "fst (GetPositions t w) = Inl e"
  then show "fst (snd (GetPositions t w)) = t" by (rule GetPositions_error_keeps_trader)
qed

lemma stale_world_timeout:
  "fst (makeRequest method endpoint body stale_world) = Inl (ErrHTTPRequest ''i/o timeout'')"
  by (simp add: makeRequest_def Let_def stale_world_def elapse_def timeout_world_def world_of_def
      makeRequest_loop.simps Do_def Sleep_def retryable_timeout)

theorem failed_fetch_keeps_cache_witness:
  "\<not> balance_cache_valid stale_trader stale_world \<and> balance_fetch_fails stale_world
   \<and> \<not> positions_cache_valid stale_trader stale_world \<and> positions_fetch_fails stale_world
   \<and> fst (GetBalance stale_trader stale_world) = Inl (ErrGetBalance (ErrHTTPRequest ''i/o timeout''))
   \<and> fst (snd (GetBalance stale_trader stale_world)) = stale_trader
   \<and> fst (GetPositions stale_trader stale_world) = Inl (ErrGetPositions (ErrHTTPRequest ''i/o timeout''))
   \<and> fst (snd (GetPositions stale_trader stale_world)) = stale_trader"
proof -
  have now: "now stale_world = 20 * Second"
    by (simp add: stale_world_def elapse_def timeout_world_def world_of_def)
  have b: "\<not> balance_cache_valid stale_trader stale_world"
    by (simp add: balance_cache_valid_def now stale_trader_def new_trader_def Second_def)
  have p: "\<not> positions_cache_valid stale_trader stale_world"
    by (simp add: positions_cache_valid_def now stale_trader_def new_trader_def Second_def)
  have bf: "balance_fetch_fails stale_world"
    by (simp add: balance_fetch_fails_def stale_world_timeout)
  have pf: "positions_fetch_fails stale_world"
    by (simp add: positions_fetch_fails_def stale_world_timeout)
  have gb: "fst (GetBalance stale_trader stale_world) = Inl (ErrGetBalance (ErrHTTPRequest ''i/o timeout''))"
    using b stale_world_timeout [of "''GET''" "''/api/v5/account/balance?ccy=USDT''" None]
    by (auto simp: GetBalance_def balance_cache_valid_def split: prod.splits sum.splits)
  have gp: "fst (GetPositions stale_trader stale_world) = Inl (ErrGetPositions (ErrHTTPRequest ''i/o timeout''))"
    using p stale_world_timeout [of "''GET''" "''/api/v5/account/positions''" None]
    by (auto simp: GetPositions_def positions_cache_valid_def split: prod.splits sum.splits)
  from failed_fetch_keeps_cache [of stale_trader stale_world] b p bf pf gb gp
  show ?thesis by simp
qed

lemma normalize_position_inj_zero:
  assumes "feq (parse_or_zero (Pos p)) (Finite 0)"
    and "\<not> feq (parse_or_zero (Pos q)) (Finite 0)"
  shows "normalize_position p \<noteq> normalize_position q"
proof
  assume e: "normalize_position p = normalize_position q"
  from normalize_position_amount [of p] obtain a where
    a: "normalize_position p ''positionAmt'' = Some (Num a)" "feq a (Finite 0)"
    using assms(1) by blast
  from normalize_position_amount [of q] obtain b where
    b: "normalize_position q ''positionAmt'' = Some (Num b)" "\<not> feq b (Finite 0)"
    using assms(2) by blast
  from e a(1) b(1) have "a = b" by simp
  with a(2) b(2) show False by simp
qed

text \<open>
  Claim C7. When \<^verbatim>\<open>GetPositions\<close> fetches the records \<open>positions\<close>, its output
  is the normalization of the records whose \<^verbatim>\<open>pos\<close> does not parse to 0, in
  order: a record whose \<^verbatim>\<open>pos\<close> parses to 0 (or does not parse) has no entry in
  the output, and a record with \<^verbatim>\<open>pos < 0\<close> has its entry there, with side
  \<^verbatim>\<open>short\<close> and \<^verbatim>\<open>positionAmt = |pos|\<close>. The comparisons are those of
  \<^verbatim>\<open>float64\<close>: both zeros are 0, and a NaN is neither 0 nor below 0.
\<close>

theorem GetPositions_normalized:
  assumes "\<not> positions_cache_valid t w"
    and "makeRequest ''GET'' ''/api/v5/account/positions'' None w = (Inr data, w1)"
    and "as_positions data = Some positions"
  shows "\<exists>result. fst (GetPositions t w) = Inr result
     \<and> elems result =
         map normalize_position
           (filter (\<lambda>p. \<not> feq (parse_or_zero (Pos p)) (Finite 0)) positions)
     \<and> (\<forall>p\<in>set positions. feq (parse_or_zero (Pos p)) (Finite 0) \<longrightarrow>
           normalize_position p \<notin> set (elems result))
     \<and> (\<forall>p\<in>set positions. flt (parse_or_zero (Pos p)) (Finite 0) \<longrightarrow>
           normalize_position p \<in> set (elems result)
           \<and> normalize_position p ''side'' = Some (Str ''short'')
           \<and> normalize_position p ''positionAmt'' =
               Some (Num (fabs (parse_or_zero (Pos p)))))"
proof -
  let ?result = "GetPositions_loop positions None"
  have r: "fst (GetPositions t w) = Inr ?result"
    using assms by (auto simp: GetPositions_def positions_cache_valid_def Let_def)
  have e: "elems ?result =
      map normalize_position
        (filter (\<lambda>p. \<not> feq (parse_or_zero (Pos p)) (Finite 0)) positions)"
    by (simp add: GetPositions_loop_elems)
  have z: "\<forall>p\<in>set positions. feq (parse_or_zero (Pos p)) (Finite 0) \<longrightarrow>
      normalize_position p \<notin> set (elems ?result)"
    unfolding e using normalize_position_inj_zero by auto
  have s: "\<forall>p\<in>set positions. flt (parse_or_zero (Pos p)) (Finite 0) \<longrightarrow>
      normalize_position p \<in> set (elems ?result)
      \<and> normalize_position p ''side'' = Some (Str ''short'')
      \<and> normalize_position p ''positionAmt'' = Some (Num (fabs (parse_or_zero (Pos p))))"
    unfolding e using normalize_position_short flt_zero_not_feq by auto
  from r e z s show ?thesis by blast
qed

lemma parse_examples:
  "parse_or_zero ''0'' = Finite 0"
  "parse_or_zero ''-4'' = Finite (- 4)"
  "parse_or_zero ''2.5'' = Finite (5 / 2)"
  by (simp_all add: parse_eval round_eval)

theorem GetPositions_normalized_witness:
  "\<exists>result. fst (GetPositions new_trader three_positions_world) = Inr result
     \<and> elems result = [normalize_position (raw_position ''ETH-USDT-SWAP'' ''-4''),
                        normalize_position (raw_position ''SOL-USDT-SWAP'' ''2.5'')]
     \<and> normalize_position (raw_position ''BTC-USDT-SWAP'' ''0'') \<notin> set (elems result)
     \<and> normalize_position (raw_position ''ETH-USDT-SWAP'' ''-4'') ''side'' = Some (Str ''short'')
     \<and> normalize_position (raw_position ''ETH-USDT-SWAP'' ''-4'') ''positionAmt''
         = Some (Num (Finite 4))"
proof -
  let ?data = "no_payload\<lparr>as_positions := Some three_positions\<rparr>"
  have v: "\<not> positions_cache_valid new_trader three_positions_world"
    by (simp add: positions_cache_valid_def new_trader_def)
  have m: "makeRequest ''GET'' ''/api/v5/account/positions'' None three_positions_world =
      (Inr ?data, three_positions_world\<lparr>now := Second, sent := [positions_request]\<rparr>)"
    using makeRequest_ok [of three_positions_world "''GET''" "''/api/v5/account/positions''" None
        "''{code:0,msg:,data:[...]}''" "ok_envelope ?data" Second]
    by (simp add: three_positions_world_def world_of_def ok_envelope_def positions_request_def)
  have d: "as_positions ?data = Some three_positions" by simp
  have p: "Pos (raw_position i x) = x" for i x by (simp add: raw_position_def)
  from GetPositions_normalized [OF v m d]
  show ?thesis
    by (auto simp: three_positions_def p parse_examples feq_def)
qed

subsection \<open>Order cancellation\<close>

text \<open>Requests and sleeps print nothing; the cancellation loops only add lines to the log.\<close>

lemma makeRequest_loop_logged:
  "logged (snd (makeRequest_loop maxRetries attempt lastErr req w)) = logged w"
proof (induction maxRetries attempt lastErr req w rule: makeRequest_loop.induct)
  case (1 maxRetries attempt lastErr req w)
  show ?case
  proof (cases "attempt \<le> maxRetries")
    case False
    then show ?thesis by (subst makeRequest_loop.simps) simp
  next
    case True
    obtain out w1 where d: "Do req w = (out, w1)" by (cases "Do req w")
    then have l1: "logged w1 = logged w"
      by (auto simp: Do_def split: prod.splits)
    show ?thesis
    proof (cases out)
      case (TransportError x)
      show ?thesis
      proof (cases "attempt < maxRetries \<and> retryable x")
        case r: True
        have "logged (snd (makeRequest_loop maxRetries (attempt + 1) (Some (ErrHTTPRequest x)) req
                 (Sleep (attempt * Second) w1))) = logged (Sleep (attempt * Second) w1)"
          using "1.IH" [OF True d [symmetric] TransportError r] .
        then show ?thesis
          using True d TransportError r l1
          by (subst makeRequest_loop.simps) (simp add: Sleep_def)
      next
        case False
        then show ?thesis
          using True d TransportError l1 by (subst makeRequest_loop.simps) auto
      qed
    next
      case (ReadError x)
      then show ?thesis
        using True d l1 by (subst makeRequest_loop.simps) simp
    next
      case (Response status body env)
      then show ?thesis
        using True d l1 by (subst makeRequest_loop.simps) (simp split: option.splits)
    qed
  qed
qed

lemma makeRequest_logged: "logged (snd (makeRequest m e b w)) = logged w"
  by (simp add: makeRequest_def Let_def makeRequest_loop_logged)

lemma makeRequest_logged':
  "makeRequest m e b w = (r, w1) \<Longrightarrow> logged w1 = logged w"
  using makeRequest_logged [of m e b w] by simp

lemma Printf_logged [simp]: "logged (Printf l w) = logged w @ [l]"
  by (simp add: Printf_def)

lemma CancelAllOrders_loop_logged:
  "prefix (logged w) (logged (CancelAllOrders_loop okxSymbol orders w))"
proof (induction orders arbitrary: w)
  case Nil
  show ?case by simp
next
  case (Cons ordId orders)
  let ?m = "makeRequest ''POST'' ''/api/v5/trade/cancel-order''
              (Some [(''instId'', Str okxSymbol), (''ordId'', Str ordId)]) w"
  obtain r w1 where m: "?m = (r, w1)" by (cases ?m)
  then have l: "logged w1 = logged w" by (rule makeRequest_logged')
  show ?case
  proof (cases r)
    case (Inl err)
    have "prefix (logged (Printf (LogCancelOrderFailed ordId err) w1))
            (logged (CancelAllOrders_loop okxSymbol orders (Printf (LogCancelOrderFailed ordId err) w1)))"
      by (rule Cons.IH)
    then have "prefix (logged w)
            (logged (CancelAllOrders_loop okxSymbol orders (Printf (LogCancelOrderFailed ordId err) w1)))"
      using l by (auto simp: prefix_def)
    then show ?thesis using m Inl by simp
  next
    case (Inr d)
    have "prefix (logged w1) (logged (CancelAllOrders_loop okxSymbol orders w1))"
      by (rule Cons.IH)
    then show ?thesis using m Inr l by simp
  qed
qed

text \<open>A cancellation that fails in the loop is logged, and the loop goes on.\<close>

lemma CancelAllOrders_loop_failure_logged:
  assumes "makeRequest ''POST'' ''/api/v5/trade/cancel-order''
             (Some [(''instId'', Str okxSymbol), (''ordId'', Str ordId)]) w = (Inl err, w1)"
  shows "LogCancelOrderFailed ordId err \<in> set (logged (CancelAllOrders_loop okxSymbol (ordId # orders) w))"
proof -
  have "prefix (logged (Printf (LogCancelOrderFailed ordId err) w1))
          (logged (CancelAllOrders_loop okxSymbol orders (Printf (LogCancelOrderFailed ordId err) w1)))"
    by (rule CancelAllOrders_loop_logged)
  then have "LogCancelOrderFailed ordId err
      \<in> set (logged (CancelAllOrders_loop okxSymbol orders (Printf (LogCancelOrderFailed ordId err) w1)))"
    by (auto simp: prefix_def)
  then show ?thesis using assms by simp
qed

lemma CancelStopLossOrders_loop_logged:
  "prefix (logged w) (logged (CancelStopLossOrders_loop okxSymbol orders w))"
proof (induction orders arbitrary: w)
  case Nil
  show ?case by simp
next
  case (Cons order orders)
  let ?m = "makeRequest ''POST'' ''/api/v5/trade/cancel-algo''
              (Some [(''instId'', Str okxSymbol), (''algoId'', Str (AlgoId order)),
                     (''ordType'', Str ''conditional'')]) w"
  obtain r w1 where m: "?m = (r, w1)" by (cases ?m)
  then have l: "logged w1 = logged w" by (rule makeRequest_logged')
  show ?case
  proof (cases "SlTriggerPx order \<noteq> [] \<and> SlTriggerPx order \<noteq> ''0''")
    case False
    then show ?thesis using Cons.IH [of w] by auto
  next
    case True
    show ?thesis
    proof (cases r)
      case (Inl err)
      have "prefix (logged (Printf (LogCancelStopLossFailed (AlgoId order) err) w1))
              (logged (CancelStopLossOrders_loop okxSymbol orders
                 (Printf (LogCancelStopLossFailed (AlgoId order) err) w1)))"
        by (rule Cons.IH)
      then have "prefix (logged w)
              (logged (CancelStopLossOrders_loop okxSymbol orders
                 (Printf (LogCancelStopLossFailed (AlgoId order) err) w1)))"
        using l by (auto simp: prefix_def)
      then show ?thesis using m Inl True by simp
    next
      case (Inr d)
      have "prefix (logged w1) (logged (CancelStopLossOrders_loop okxSymbol orders w1))"
        by (rule Cons.IH)
      then show ?thesis using m Inr l True by simp
    qed
  qed
qed


lemma CancelStopLossOrders_logged:
  "prefix (logged w) (logged (snd (CancelStopLossOrders symbol w)))"
proof -
  let ?m = "makeRequest ''GET''
      (''/api/v5/trade/orders-algo-pending?instId='' @ convertSymbol symbol @ ''&ordType=conditional'')
      None w"
  obtain r w1 where m: "?m = (r, w1)" by (cases ?m)
  then have l: "logged w1 = logged w" by (rule makeRequest_logged')
  show ?thesis
    using m l CancelStopLossOrders_loop_logged [of w1 "convertSymbol symbol"]
    by (auto simp: CancelStopLossOrders_def Let_def split: sum.splits option.splits)
qed


lemma CancelAllOrders_algo_success [simp]: "fst (CancelAllOrders_algo symbol w) = None"
  by (simp add: CancelAllOrders_algo_def Let_def split: prod.splits)


lemma convertSymbol_BTCUSDT: "convertSymbol ''BTCUSDT'' = ''BTC-USDT-SWAP''"
  using convertSymbol_USDT [of "''BTC''"] by simp









subsection \<open>Quantities\<close>

lemma instrument_world_spec:
  "getInstrumentInfo ''BTCUSDT'' (instrument_world minSz lotSz tickSz) =
     (Inr (instrument minSz lotSz tickSz),
      (instrument_world minSz lotSz tickSz)\<lparr>now := Second,
         sent := [\<lparr>req_method = ''GET'',
                   req_endpoint = ''/api/v5/public/instruments?instType=SWAP&instId=BTC-USDT-SWAP'',
                   req_body = None\<rparr>]\<rparr>)"
  by (simp add: getInstrumentInfo_def Let_def convertSymbol_BTCUSDT makeRequest_def
      instrument_world_def world_of_def makeRequest_loop.simps Do_def ok_envelope_def)

lemma multiple_of_nat:
  assumes "0 < l" and "l dvd N"
  shows "multiple_of (of_nat l) (of_nat N)"
proof -
  from assms(2) obtain j where N: "N = l * j" by (auto simp: dvd_def)
  have "(of_nat N :: real) / of_nat l = of_nat j"
    using assms(1) by (simp add: N)
  then show ?thesis
    by (simp add: multiple_of_def N)
qed

text \<open>
  With whole numbers of contracts up to \<open>2 ^ 52\<close>, the quotient is rounded but
  its floor stays between the two whole numbers around the exact quotient, and
  the product with the lot size is exact.
\<close>

lemma floor_quotient_product:
  fixes r :: real and l j :: nat
  assumes "0 < l" and "0 < j" and "of_nat (l * j) \<le> r" and "r \<le> 2 ^ 52" and "l * j \<le> 2 ^ 52"
  shows "\<exists>N. fmul (Floor (fdiv (Finite r) (Finite (of_nat l)))) (Finite (of_nat l))
               = Finite (of_nat N)
     \<and> l * j \<le> N \<and> l dvd N \<and> (r = of_nat (l * j) \<longrightarrow> N = l * j)"
proof -
  define x where "x = r / of_nat l"
  have l1: "(1::real) \<le> of_nat l" using assms(1) by simp
  have rpos: "0 < r"
  proof -
    have "(0::real) < of_nat (l * j)" using assms(1,2) by simp
    with assms(3) show ?thesis by linarith
  qed
  have xpos: "0 < x" using rpos assms(1) by (simp add: x_def)
  have xr: "x \<le> r"
  proof -
    have "r / of_nat l \<le> r / 1" using l1 rpos by (intro divide_left_mono) simp_all
    then show ?thesis by (simp add: x_def)
  qed
  have x52: "x \<le> 2 ^ 52" using xr assms(4) by linarith
  have x53: "x < 2 ^ 53" using x52 by simp
  have jx: "of_int (int j) \<le> x"
  proof -
    have "(of_nat (l * j) :: real) / of_nat l \<le> r / of_nat l"
      using assms(3) by (rule divide_right_mono) simp
    moreover have "(of_nat (l * j) :: real) / of_nat l = of_nat j" using assms(1) by simp
    ultimately show ?thesis by (simp add: x_def)
  qed
  have lo: "of_int (int j) \<le> nearest x" by (rule nearest_between(1) [OF xpos x53 jx])
  have hi: "nearest x \<le> of_int \<lceil>x\<rceil>" by (rule nearest_between(2) [OF xpos x53]) simp
  have c52: "\<lceil>x\<rceil> \<le> 2 ^ 52"
  proof -
    have "x \<le> of_int (2 ^ 52)" using x52 by simp
    then show ?thesis by (simp only: ceiling_le_iff)
  qed
  have npos: "0 < nearest x"
  proof -
    have "(0::real) < of_int (int j)" using assms(2) by simp
    with lo show ?thesis by linarith
  qed
  have n53: "nearest x \<le> 2 ^ 53"
  proof -
    have "(of_int \<lceil>x\<rceil> :: real) \<le> of_int (2 ^ 52)" using c52 by (simp only: of_int_le_iff)
    moreover have "(of_int (2 ^ 52) :: real) \<le> 2 ^ 53" by simp
    ultimately show ?thesis using hi by linarith
  qed
  have rd: "round64 x = Finite (nearest x)" by (rule round64_Finite [OF xpos npos n53])
  define k where "k = \<lfloor>nearest x\<rfloor>"
  have jk: "int j \<le> k" unfolding k_def using lo by (simp only: le_floor_iff)
  have k0: "0 < k" using jk assms(2) by simp
  have kc: "k \<le> \<lceil>x\<rceil>"
  proof -
    have "(of_int k :: real) \<le> nearest x" by (simp add: k_def)
    with hi have "(of_int k :: real) \<le> of_int \<lceil>x\<rceil>" by linarith
    then show ?thesis by (simp only: of_int_le_iff)
  qed
  define N where "N = nat k * l"
  have kN: "of_int k * (of_nat l :: real) = of_nat N" using k0 by (simp add: N_def)
  have Npos: "0 < N" using k0 assms(1) by (simp add: N_def)
  have N53: "N < 2 ^ 53"
  proof -
    have "(of_int k :: real) \<le> of_int \<lceil>x\<rceil>" using kc by (simp only: of_int_le_iff)
    also have "(of_int \<lceil>x\<rceil> :: real) < x + 1" using ceiling_correct [of x] by linarith
    finally have "(of_int k :: real) * of_nat l < (x + 1) * of_nat l"
      using assms(1) by (simp only: mult_less_cancel_right_pos of_nat_0_less_iff)
    also have "(x + 1) * of_nat l = r + of_nat l" using assms(1) by (simp add: x_def distrib_right)
    finally have a: "(of_nat N :: real) < r + of_nat l" by (simp only: kN)
    have "l \<le> l * j" using assms(2) by simp
    with assms(5) have "l \<le> 2 ^ 52" by linarith
    then have "(of_nat l :: real) \<le> 2 ^ 52"
      by (simp add: of_nat_le_numeral_power_cancel_iff)
    with a assms(4) have "(of_nat N :: real) < 2 ^ 53" by simp
    then show ?thesis by (simp only: of_nat_less_numeral_power_cancel_iff)
  qed
  have fd: "fdiv (Finite r) (Finite (of_nat l)) = Finite (nearest x)"
    using rpos assms(1) rd by (simp add: fdiv_def is_inf_def is_zero_def x_def)
  have fm: "fmul (Finite (of_int k)) (Finite (of_nat l)) = Finite (of_nat N)"
  proof -
    have "fmul (Finite (of_int k)) (Finite (of_nat l)) = round64 (of_int k * of_nat l)"
      using k0 assms(1) by (simp add: fmul_def is_inf_def is_zero_def)
    also have "\<dots> = round64 (of_nat N)" by (simp only: kN)
    also have "\<dots> = Finite (of_nat N)" by (rule round64_of_nat [OF Npos N53])
    finally show ?thesis .
  qed
  have "fmul (Floor (fdiv (Finite r) (Finite (of_nat l)))) (Finite (of_nat l)) = Finite (of_nat N)"
    by (simp add: fd k_def [symmetric] fm)
  moreover have "l * j \<le> N"
  proof -
    have "j \<le> nat k" using jk by simp
    then show ?thesis by (simp add: N_def mult.commute)
  qed
  moreover have "l dvd N" by (simp add: N_def)
  moreover have "N = l * j" if "r = of_nat (l * j)"
  proof -
    have "x = of_nat j" using that assms(1) by (simp add: x_def)
    then have "x = of_int (int j)" by simp
    with hi have "nearest x \<le> of_int (int j)" by simp
    with lo have "nearest x = of_int (int j)" by linarith
    then have "k = int j" by (simp add: k_def)
    then show ?thesis by (simp add: N_def mult.commute)
  qed
  ultimately show ?thesis by blast
qed

lemma quantize_whole:
  fixes q :: real and m l :: nat
  assumes "parse_or_zero (MinSz info) = Finite (of_nat m)" and "0 < m" and "m \<le> 2 ^ 52"
    and "parse_or_zero (LotSz info) = Finite (of_nat l)" and "0 < l" and "l dvd m"
    and "0 < q" and "q \<le> 2 ^ 52"
  shows "\<exists>N. quantize info (Finite q) = Finite (of_nat N) \<and> m \<le> N \<and> l dvd N
           \<and> (q < of_nat m \<longrightarrow> N = m)"
proof -
  from assms(6) obtain j where m: "m = l * j" by (auto simp: dvd_def)
  have j: "0 < j" using assms(2) m by (cases j) simp_all
  define r where "r = (if q < of_nat m then of_nat m else q)"
  have r1: "of_nat (l * j) \<le> r" by (simp add: r_def m)
  have m52: "(of_nat m :: real) \<le> 2 ^ 52"
    using assms(3) by (simp add: of_nat_le_numeral_power_cancel_iff)
  have r2: "r \<le> 2 ^ 52" using assms(8) m52 by (simp add: r_def)
  have lj: "l * j \<le> 2 ^ 52" using assms(3) by (simp add: m)
  from floor_quotient_product [OF assms(5) j r1 r2 lj] obtain N where
    N: "fmul (Floor (fdiv (Finite r) (Finite (of_nat l)))) (Finite (of_nat l)) = Finite (of_nat N)"
      "l * j \<le> N" "l dvd N" "r = of_nat (l * j) \<longrightarrow> N = l * j"
    by blast
  have mpos: "(0::real) < of_nat m" using assms(2) by simp
  have minSz: "\<not> fle (Finite (of_nat m)) (Finite 0)"
    using assms(2) by (simp add: fle_def feq_def)
  have lot: "fgt (Finite (of_nat l)) (Finite 0)" using assms(5) by (simp add: fgt_def)
  have ge: "\<not> flt (Finite (of_nat N)) (Finite (of_nat m))"
  proof -
    have "(of_nat m :: real) \<le> of_nat N" using N(2) by (simp only: of_nat_le_iff m)
    then show ?thesis by simp
  qed
  have "quantize info (Finite q) = Finite (of_nat N)"
  proof (cases "q < of_nat m")
    case True
    then have "r = of_nat m" by (simp add: r_def)
    with N(1) True ge show ?thesis
      by (simp add: quantize_def Let_def assms(1,4) minSz lot)
  next
    case False
    then have "r = q" by (simp add: r_def)
    with N(1) False ge show ?thesis
      by (simp add: quantize_def Let_def assms(1,4) minSz lot)
  qed
  moreover have "m \<le> N" using N(2) by (simp add: m)
  moreover have "N = m" if "q < of_nat m"
  proof -
    from that have "r = of_nat (l * j)" by (simp add: r_def m)
    with N(4) show ?thesis by (simp add: m)
  qed
  ultimately show ?thesis using N(3) by blast
qed

text \<open>
  Claim C1, amended. For an instrument whose \<^verbatim>\<open>minSz\<close> and \<^verbatim>\<open>lotSz\<close> are positive
  whole numbers, \<^verbatim>\<open>minSz\<close> a multiple of \<^verbatim>\<open>lotSz\<close> and at most \<open>2 ^ 52\<close>, and every
  quantity \<open>q\<close> with \<open>0 < q \<le> 2 ^ 52\<close>: when the fetch of the specification
  succeeds, the string \<^verbatim>\<open>FormatQuantity\<close> returns denotes a quantity \<open>q'\<close> with
  \<open>q' \<ge> minSz\<close>, \<open>q'\<close> a multiple of \<^verbatim>\<open>lotSz\<close>, and \<open>q' = minSz\<close> whenever
  \<open>q < minSz\<close>. The arithmetic is that of \<^verbatim>\<open>float64\<close>; the bound keeps the multiples
  of the lot size among its values.
\<close>

theorem FormatQuantity_whole_lots:
  fixes q :: real and m l :: nat
  assumes "getInstrumentInfo symbol w = (Inr info, w1)"
    and "0 < q" and "q \<le> 2 ^ 52"
    and "parse_or_zero (MinSz info) = Finite (of_nat m)" and "0 < m" and "m \<le> 2 ^ 52"
    and "parse_or_zero (LotSz info) = Finite (of_nat l)" and "0 < l" and "l dvd m"
  shows "\<exists>s q'. fst (FormatQuantity symbol (Finite q) w) = Inr s \<and> decimal_value s = Some q'
           \<and> of_nat m \<le> q' \<and> multiple_of (of_nat l) q' \<and> (q < of_nat m \<longrightarrow> q' = of_nat m)"
proof -
  from quantize_whole [OF assms(4,5,6,7,8,9,2,3)]
  obtain N where N: "quantize info (Finite q) = Finite (of_nat N)" "m \<le> N" "l dvd N"
      "q < of_nat m \<longrightarrow> N = m"
    by blast
  have pos: "\<not> fle (Finite q) (Finite 0)" using assms(2) by (simp add: fle_def feq_def)
  have "fst (FormatQuantity symbol (Finite q) w) = Inr (show_nat N)"
    using assms(1) pos N(1) by (simp add: FormatQuantity_def format_digits_of_nat_0)
  moreover have "decimal_value (show_nat N) = Some (of_nat N)" by (rule decimal_value_show_nat)
  moreover have "(of_nat m :: real) \<le> of_nat N" using N(2) by simp
  moreover have "multiple_of (of_nat l) (of_nat N)" using assms(8) N(3) by (rule multiple_of_nat)
  moreover have "q < of_nat m \<longrightarrow> (of_nat N :: real) = of_nat m" using N(4) by simp
  ultimately show ?thesis by blast
qed

lemma parse_small:
  "parse_or_zero ''1'' = Finite 1" "parse_or_zero ''3'' = Finite 3" "parse_or_zero ''4'' = Finite 4"
  "parse_or_zero ''0.5'' = Finite (1 / 2)"
  by (simp_all add: parse_eval round_eval)

text \<open>
  The first scenario of the specification: \<^verbatim>\<open>OpenLong("BTCUSDT", 0.873, 10)\<close> with
  a lot size and a minimum of 1 sends the size \<^verbatim>\<open>"1"\<close>. The quantity is the
  \<^verbatim>\<open>float64\<close> nearest to 0.873.
\<close>

lemma quantity_0873: "round64 (873 / 1000) = Finite (3931642474694443 / 4503599627370496)"
  by (simp add: round_eval)

theorem FormatQuantity_whole_lots_witness:
  "\<exists>s q'. fst (FormatQuantity ''BTCUSDT'' (round64 (873 / 1000))
                 (instrument_world ''1'' ''1'' ''0.1'')) = Inr s
     \<and> decimal_value s = Some q' \<and> 1 \<le> q' \<and> multiple_of 1 q' \<and> q' = 1"
proof -
  have i: "MinSz (instrument ''1'' ''1'' ''0.1'') = ''1''" "LotSz (instrument ''1'' ''1'' ''0.1'') = ''1''"
    by (simp_all add: instrument_def)
  have a: "parse_or_zero (MinSz (instrument ''1'' ''1'' ''0.1'')) = Finite (of_nat 1)"
    and b: "parse_or_zero (LotSz (instrument ''1'' ''1'' ''0.1'')) = Finite (of_nat 1)"
    by (simp_all add: i parse_small)
  from FormatQuantity_whole_lots [OF instrument_world_spec _ _ a _ _ b,
      of "3931642474694443 / 4503599627370496"]
  show ?thesis by (simp add: quantity_0873)
qed

text \<open>
  Claim C1 as it stands is false, also for instruments with \<^verbatim>\<open>minSz \<ge> lotSz > 0\<close>.
  With \<^verbatim>\<open>minSz = 4\<close> and \<^verbatim>\<open>lotSz = 3\<close>, a quantity of 5 is floored to one lot of 3
  and then raised to the minimum: the result \<^verbatim>\<open>"4"\<close> is no multiple of the lot
  size. With \<^verbatim>\<open>minSz = lotSz = 0.5\<close>, a quantity of 0.25 is raised to 0.5 and
  rendered as its floor: the result \<^verbatim>\<open>"0"\<close> is below the minimum.
\<close>

theorem FormatQuantity_counterexample:
  "fst (FormatQuantity ''BTCUSDT'' (Finite 5) (instrument_world ''4'' ''3'' ''0.1'')) = Inr ''4''
   \<and> parse_or_zero ''4'' = Finite 4 \<and> parse_or_zero ''3'' = Finite 3
   \<and> decimal_value ''4'' = Some 4 \<and> \<not> multiple_of 3 4
   \<and> fst (FormatQuantity ''BTCUSDT'' (Finite (1 / 4)) (instrument_world ''0.5'' ''0.5'' ''0.1''))
       = Inr ''0''
   \<and> parse_or_zero ''0.5'' = Finite (1 / 2)
   \<and> decimal_value ''0'' = Some 0 \<and> \<not> (1 / 2 \<le> (0::real))"
proof -
  have a: "fst (FormatQuantity ''BTCUSDT'' (Finite 5) (instrument_world ''4'' ''3'' ''0.1''))
      = Inr ''4''"
    by (simp add: FormatQuantity_def instrument_world_spec quantize_def instrument_def parse_small
        float_eval round_eval format_eval)
  have b: "fst (FormatQuantity ''BTCUSDT'' (Finite (1 / 4)) (instrument_world ''0.5'' ''0.5'' ''0.1''))
      = Inr ''0''"
    by (simp add: FormatQuantity_def instrument_world_spec quantize_def instrument_def parse_small
        float_eval round_eval format_eval)
  have c: "decimal_value ''4'' = Some 4" "decimal_value ''0'' = Some 0"
    by (simp_all add: decimal_value_def digit_of_def Let_def)
  have d: "\<not> multiple_of 3 4"
  proof -
    have "\<lfloor>(4::real) / 3\<rfloor> = 1" by simp
    then show ?thesis by (simp add: multiple_of_def)
  qed
  from a b c d show ?thesis by (simp add: parse_small)
qed

subsection \<open>Prices\<close>














lemma getPrecision_instrument_world:
  "fst (getPrecision ''BTCUSDT'' new_trader (instrument_world minSz lotSz tickSz)) =
     Inr \<lparr>PricePrecision = precision_of (parse_or_zero tickSz),
          QuantityPrecision = precision_of (parse_or_zero lotSz),
          TickSize = parse_or_zero tickSz, StepSize = parse_or_zero lotSz,
          MinSize = parse_or_zero minSz\<rparr>"
  by (simp add: getPrecision_def Let_def convertSymbol_BTCUSDT new_trader_def
      instrument_world_spec instrument_def)

lemma formatPrice_instrument_world:
  "fst (formatPrice ''BTCUSDT'' price new_trader (instrument_world minSz lotSz tickSz)) =
     Inr (TrimRight (TrimRight
       (FormatFloat
          (if fgt (parse_or_zero tickSz) (Finite 0)
           then fmul (Floor (fdiv price (parse_or_zero tickSz))) (parse_or_zero tickSz)
           else fdiv (Floor (fmul price (Pow10 (precision_of (parse_or_zero tickSz)))))
                  (Pow10 (precision_of (parse_or_zero tickSz))))
          (precision_of (parse_or_zero tickSz))) ''0'') ''.'')"
proof -
  obtain r t1 w1 where
    g: "getPrecision ''BTCUSDT'' new_trader (instrument_world minSz lotSz tickSz) = (r, t1, w1)"
    by (cases "getPrecision ''BTCUSDT'' new_trader (instrument_world minSz lotSz tickSz)")
  with getPrecision_instrument_world [of minSz lotSz tickSz]
  have r: "r = Inr \<lparr>PricePrecision = precision_of (parse_or_zero tickSz),
          QuantityPrecision = precision_of (parse_or_zero lotSz),
          TickSize = parse_or_zero tickSz, StepSize = parse_or_zero lotSz,
          MinSize = parse_or_zero minSz\<rparr>"
    by simp
  show ?thesis by (simp add: formatPrice_def g r Let_def)
qed

text \<open>
  The tick sizes of the examples as \<^verbatim>\<open>strconv.ParseFloat\<close> reads them, and the
  prices 70000.3 and 60000.1 as \<^verbatim>\<open>float64\<close>.
\<close>

lemma parse_ticks:
  "parse_or_zero ''0'' = Finite 0"
  "parse_or_zero ''0.1'' = Finite (3602879701896397 / 36028797018963968)"
  "parse_or_zero ''0.0000000001'' = Finite (7737125245533627 / 77371252455336267181195264)"
  by (simp_all add: parse_eval round_eval)



text \<open>
  \<^verbatim>\<open>getPrecision\<close> takes for the number of decimals the length of the whole
  trimmed rendering of the tick size: 3 for \<^verbatim>\<open>0.1\<close>, 12 for \<^verbatim>\<open>0.0000000001\<close>, and
  0 when the tick size is not positive.
\<close>

lemma precision_examples:
  "precision_of (Finite 0) = 0"
  "precision_of (Finite (3602879701896397 / 36028797018963968)) = 3"
  "precision_of (Finite (7737125245533627 / 77371252455336267181195264)) = 12"
  by (simp_all add: precision_of_def fgt_def format_eval)





text \<open>
  Without a positive tick size the precision is 0, the price is rendered with no
  decimals and no point, and the trimming of the zeros on the right, meant for
  the decimals, takes the zeros of the whole number: 120 becomes \<^verbatim>\<open>"12"\<close>, where
  \<open>floor(120 * 10^0) / 10^0\<close> is 120.
\<close>

lemma formatPrice_no_tick:
  "fst (formatPrice ''BTCUSDT'' (Finite 120) new_trader (instrument_world ''1'' ''1'' ''0''))
     = Inr ''12''"
proof -
  have p: "Pow10 0 = Finite 1" by (simp add: Pow10_def float_eval round_eval)
  have a: "fdiv (Floor (fmul (Finite 120) (Finite 1))) (Finite 1) = Finite 120"
    by (simp add: float_eval round_eval)
  have r: "TrimRight (TrimRight (format_digits 120 0) ''0'') ''.'' = ''12''"
    by (simp add: format_eval)
  show ?thesis
    unfolding formatPrice_instrument_world parse_ticks precision_examples
    by (simp add: fgt_def p a r)
qed




subsection \<open>The arithmetic outside these bounds\<close>

text \<open>
  Beyond the bounds of the amended claim the rounding shows. With \<^verbatim>\<open>minSz\<close> and
  \<^verbatim>\<open>lotSz\<close> 3, the quantity \<open>2 ^ 53 + 2\<close> is 3002399751580331 lots and a third;
  the product of the floor with the lot size, 9007199254740993, is no
  \<^verbatim>\<open>float64\<close> and is rounded to \<open>2 ^ 53\<close>.
\<close>

lemma FormatQuantity_large:
  "fst (FormatQuantity ''BTCUSDT'' (Finite 9007199254740994) (instrument_world ''3'' ''3'' ''0.1''))
     = Inr ''9007199254740992''"
proof -
  have d: "fdiv (Finite 9007199254740994) (Finite 3) = Finite (6004799503160663 / 2)"
    by (simp add: float_eval round_eval)
  have m: "fmul (Finite 3002399751580331) (Finite 3) = Finite 9007199254740992"
    by (simp add: float_eval round_eval)
  have r: "format_digits 9007199254740992 0 = ''9007199254740992''"
    by (simp add: format_eval)
  show ?thesis
    by (simp add: FormatQuantity_def instrument_world_spec quantize_def instrument_def parse_small
        fle_def feq_def fgt_def d m r)
qed

text \<open>
  A NaN is not \<open>\<le> 0\<close>: it passes the guard of \<^verbatim>\<open>FormatQuantity\<close> and every
  comparison after it, and is rendered as \<^verbatim>\<open>"NaN"\<close>.
\<close>

lemma FormatQuantity_NaN:
  "fst (FormatQuantity ''BTCUSDT'' NaN (instrument_world ''1'' ''1'' ''0.1'')) = Inr ''NaN''"
  by (simp add: FormatQuantity_def instrument_world_spec quantize_def instrument_def parse_small
      fle_def feq_def fgt_def fdiv_def fmul_def)

text \<open>
  Without the specification the quantity is rounded to two or three decimals:
  the \<^verbatim>\<open>float64\<close> nearest to 1.115 is below 1.115, its product with 100 is
  rounded to 111.5, and \<^verbatim>\<open>math.Round\<close> gives 112.
\<close>

lemma FormatQuantity_fallback:
  "fst (FormatQuantity ''BTCUSDT'' (round64 (1115 / 1000)) refused_world) = Inr ''1.12''"
proof -
  have q: "round64 (1115 / 1000) = Finite (5021513584518103 / 4503599627370496)"
    by (simp add: round_eval)
  have g: "fst (getInstrumentInfo ''BTCUSDT'' refused_world) = Inl (ErrHTTPRequest ''connection refused'')"
    by (simp add: getInstrumentInfo_def Let_def convertSymbol_BTCUSDT makeRequest_def
        refused_world_def world_of_def makeRequest_loop.simps Do_def retryable_def)
  have m: "fmul (Finite (5021513584518103 / 4503599627370496)) (Finite 100)
      = Finite (223 / 2)"
    by (simp add: float_eval round_eval)
  have r: "Round (Finite (223 / 2)) = Finite 112"
    by simp
  have d: "fdiv (Finite 112) (Finite 100) = Finite (1261007895663739 / 1125899906842624)"
    by (simp add: float_eval round_eval)
  have f: "format_digits (1261007895663739 / 1125899906842624) 2 = ''1.12''"
    by (simp add: format_eval)
  have c: "Contains ''BTCUSDT'' ''BTC''" by simp
  obtain e w1 where gi: "getInstrumentInfo ''BTCUSDT'' refused_world = (Inl e, w1)"
    using g by (cases "getInstrumentInfo ''BTCUSDT'' refused_world") auto
  show ?thesis
    unfolding q by (simp add: FormatQuantity_def gi fle_def feq_def m r d f c)
qed

text \<open>
  \<^verbatim>\<open>strconv.ParseFloat\<close> reads exponents, single underscores between digits,
  and the names of the infinities and of NaN; what it does not read is 0 for the
  client, which drops the error.
\<close>

lemma parse_more:
  "parse_or_zero ''-1e3'' = Finite (- 1000)"
  "parse_or_zero ''1.5E-2'' = Finite (1080863910568919 / 72057594037927936)"
  "parse_or_zero ''-0'' = NegZero"
  "parse_or_zero ''+Inf'' = PosInf"
  "parse_or_zero ''nan'' = NaN"
  "parse_or_zero ''1e400'' = PosInf"
  "parse_or_zero ''1_0'' = Finite 10"
  "parse_or_zero ''1__0'' = Finite 0"
  "parse_or_zero ''abc'' = Finite 0"
  "parse_or_zero '''' = Finite 0"
  by (simp_all add: parse_eval round_eval)

text \<open>
  A tick size of \<^verbatim>\<open>0.00000000005\<close> is rendered by \<^verbatim>\<open>%.10f\<close> as \<^verbatim>\<open>0.0000000001\<close>:
  its number of decimals is 12.
\<close>

lemma precision_half_unit:
  "precision_of (parse_or_zero ''0.00000000005'') = 12"
proof -
  have p: "parse_or_zero ''0.00000000005'' = Finite (7737125245533627 / 154742504910672534362390528)"
    by (simp add: parse_eval round_eval)
  show ?thesis unfolding p by (simp add: precision_of_def fgt_def format_eval)
qed

subsection \<open>Signer\<close>

text \<open>The streaming MAC object computes the HMAC of RFC 2104 of what was written to it.\<close>

lemma hmac_Sum_Write_New:
  "hmac_Sum (hmac_Write (hmac_New key) msg) [] = HMAC_SHA256 key msg"
  by (simp add: hmac_Sum_def hmac_Write_def hmac_New_def HMAC_SHA256_def)

lemma bytes_of_append: "bytes_of (a @ b) = bytes_of a @ bytes_of b"
  by (simp add: bytes_of_def)

text \<open>A digest has 32 bytes, and its base64 encoding 44 characters.\<close>

lemma list8:
  assumes "length s = 8"
  obtains a b c d e f g h where "s = [a, b, c, d, e, f, g, h]"
proof -
  from assms obtain a b c d e f g h where "s = [a, b, c, d, e, f, g, h]"
    by (auto simp: eval_nat_numeral length_Suc_conv)
  then show ?thesis by (rule that)
qed

lemma length_sha256_round: "length s = 8 \<Longrightarrow> length (sha256_round s kw) = 8"
  by (erule list8) (simp add: sha256_round_def Let_def)

lemma length_foldl_round: "length s = 8 \<Longrightarrow> length (foldl sha256_round s kws) = 8"
  by (induction kws arbitrary: s) (simp_all add: length_sha256_round)

lemma length_sha256_block: "length hs = 8 \<Longrightarrow> length (sha256_block hs block) = 8"
  by (simp add: sha256_block_def Let_def length_foldl_round)

lemma length_foldl_block: "length hs = 8 \<Longrightarrow> length (foldl sha256_block hs blocks) = 8"
  by (induction blocks arbitrary: hs) (simp_all add: length_sha256_block)

lemma length_concat_words: "length (concat (map bytes_of_word32 ws)) = 4 * length ws"
  by (induction ws) (simp_all add: bytes_of_word32_def)

lemma length_sha256: "length (sha256 msg) = 32"
proof -
  have "length H256 = 8" by (simp add: H256_def)
  then have "length (foldl sha256_block H256 (chunks 64 (sha256_pad msg))) = 8"
    by (rule length_foldl_block)
  then show ?thesis by (simp add: sha256_def length_concat_words)
qed

lemma length_EncodeToString: "length (EncodeToString bs) = 4 * ((length bs + 2) div 3)"
proof (induction bs rule: EncodeToString.induct)
  case (4 a b c rest)
  have "(length rest + 5) div 3 = Suc ((length rest + 2) div 3)" by arith
  with "4.IH" show ?case by (simp add: Let_def add.commute)
qed (simp_all add: Let_def)

lemma length_generateSignature: "length (generateSignature t timestamp meth requestPath body) = 44"
  by (simp add: generateSignature_def Let_def hmac_Sum_def length_EncodeToString length_sha256)

lemma EncodeToString_examples:
  "EncodeToString (bytes_of ''M'') = ''TQ==''"
  "EncodeToString (bytes_of ''Ma'') = ''TWE=''"
  "EncodeToString (bytes_of ''Man'') = ''TWFu''"
  by (simp_all add: bytes_of_def base64_char_def Let_def)

text \<open>
  Claim C8. \<^verbatim>\<open>generateSignature\<close> returns the base64 encoding of the HMAC-SHA256,
  keyed by the secret, of \<open>timestamp @ method @ path @ body\<close>. It reads nothing
  but its four arguments and the secret key: it takes no clock and no
  randomness, and two clients with the same secret, whatever their caches, give
  the same signature for the same arguments.
\<close>

theorem generateSignature_is_HMAC:
  "generateSignature t timestamp meth requestPath body =
     EncodeToString (HMAC_SHA256 (bytes_of (secretKey t))
                       (bytes_of (timestamp @ meth @ requestPath @ body)))
   \<and> generateSignature t timestamp meth requestPath body =
       spec_signature (secretKey t) timestamp meth requestPath body
   \<and> (secretKey t' = secretKey t \<longrightarrow>
        generateSignature t' timestamp meth requestPath body =
        generateSignature t timestamp meth requestPath body)"
proof -
  have a: "generateSignature t timestamp meth requestPath body =
      EncodeToString (HMAC_SHA256 (bytes_of (secretKey t))
                        (bytes_of (timestamp @ meth @ requestPath @ body)))" for t
    unfolding generateSignature_def Let_def hmac_Sum_Write_New ..
  show ?thesis
  proof (intro conjI impI)
    show "generateSignature t timestamp meth requestPath body =
      EncodeToString (HMAC_SHA256 (bytes_of (secretKey t))
                        (bytes_of (timestamp @ meth @ requestPath @ body)))"
      by (rule a)
    show "generateSignature t timestamp meth requestPath body =
       spec_signature (secretKey t) timestamp meth requestPath body"
      by (simp add: a spec_signature_def)
    assume "secretKey t' = secretKey t"
    then show "generateSignature t' timestamp meth requestPath body =
        generateSignature t timestamp meth requestPath body"
      by (simp add: a)
  qed
qed

theorem generateSignature_is_HMAC_witness:
  "secretKey stale_trader = secretKey new_trader
   \<and> cachedBalance stale_trader \<noteq> cachedBalance new_trader
   \<and> generateSignature stale_trader ''2024-01-01T00:00:00.000Z'' ''GET''
        ''/api/v5/account/balance?ccy=USDT'' [] =
      generateSignature new_trader ''2024-01-01T00:00:00.000Z'' ''GET''
        ''/api/v5/account/balance?ccy=USDT'' []"
proof -
  have s: "secretKey stale_trader = secretKey new_trader"
    by (simp add: stale_trader_def)
  have c: "cachedBalance stale_trader \<noteq> cachedBalance new_trader"
    by (simp add: stale_trader_def new_trader_def)
  from generateSignature_is_HMAC [of new_trader "''2024-01-01T00:00:00.000Z''" "''GET''"
      "''/api/v5/account/balance?ccy=USDT''" "[]" stale_trader] s c
  show ?thesis by simp
qed

end
